theory Spec2Isabelle
  imports Complex_Main "HOL-Library.Sublist" "HOL-Library.Log_Nat"
begin

section \<open>Python values and exceptions\<close>

text \<open>
  The client in \<^verbatim>\<open>custom_components/ducobox/api.py\<close> talks to the device over HTTP and
  decodes JSON bodies into Python values. A decoded body is modelled by the datatype
  \<open>json\<close>: \<open>JNull\<close> is Python's \<^verbatim>\<open>None\<close>, \<open>JObj kvs\<close> is the dict whose lookup is
  \<open>map_of kvs\<close>.

  A Python \<^verbatim>\<open>float\<close> is an IEEE 754 double: \<open>Finite q\<close> is the finite double whose
  value is the rational \<open>q\<close> (the sign of a zero is not kept), the other three are the
  infinities and NaN, which \<^verbatim>\<open>json.loads\<close> accepts in a body and which a caller can
  pass as a value. Python's integers are unbounded and are kept apart as \<open>JInt\<close>.
\<close>

datatype pyfloat = Finite rat | PosInf | NegInf | NaN

datatype json =
    JNull
  | JBool bool
  | JInt int
  | JFloat pyfloat
  | JStr string
  | JArr "json list"
  | JObj "(string \<times> json) list"

text \<open>The exceptions the modelled code can meet. All of them derive from \<^verbatim>\<open>Exception\<close>.\<close>

datatype exn =
    ClientError            \<comment> \<open>aiohttp transport fault (connection refused, reset, ...)\<close>
  | TimeoutError           \<comment> \<open>the request's timeout elapsed\<close>
  | ClientResponseError    \<comment> \<open>\<^verbatim>\<open>raise_for_status()\<close> on a status of 400 or more\<close>
  | DecodeError            \<comment> \<open>\<^verbatim>\<open>response.json()\<close> could not decode the body\<close>
  | AttributeError         \<comment> \<open>\<^verbatim>\<open>.get\<close> on a value that is not a dict\<close>
  | TypeError              \<comment> \<open>an operator applied to a value of the wrong type\<close>
  | ValueError             \<comment> \<open>\<^verbatim>\<open>int(nan)\<close>\<close>
  | OverflowError          \<comment> \<open>\<^verbatim>\<open>int(inf)\<close>, or an integer quotient too large for a float\<close>

definition bind_exn :: "exn + 'a \<Rightarrow> ('a \<Rightarrow> exn + 'b) \<Rightarrow> exn + 'b" where
  "bind_exn m f = (case m of Inl e \<Rightarrow> Inl e | Inr x \<Rightarrow> f x)"

text \<open>Python truthiness (\<^verbatim>\<open>bool(v)\<close>) of a decoded value.\<close>

fun truthy :: "json \<Rightarrow> bool" where
  "truthy JNull = False"
| "truthy (JBool b) = b"
| "truthy (JInt n) = (n \<noteq> 0)"
| "truthy (JFloat x) = (x \<noteq> Finite 0)"
| "truthy (JStr s) = (s \<noteq> [])"
| "truthy (JArr xs) = (xs \<noteq> [])"
| "truthy (JObj kvs) = (kvs \<noteq> [])"

text \<open>\<^verbatim>\<open>d.get(key, default)\<close> on a dict.\<close>

definition dict_get :: "(string \<times> json) list \<Rightarrow> string \<Rightarrow> json \<Rightarrow> json" where
  "dict_get kvs key dflt = (case map_of kvs key of None \<Rightarrow> dflt | Some v \<Rightarrow> v)"

text \<open>
  \<^verbatim>\<open>data.get(key, default)\<close> on an arbitrary decoded value: only a dict has the method,
  every other JSON value raises \<^verbatim>\<open>AttributeError\<close>.
\<close>

fun py_get_default :: "json \<Rightarrow> string \<Rightarrow> json \<Rightarrow> exn + json" where
  "py_get_default (JObj kvs) key dflt = Inr (dict_get kvs key dflt)"
| "py_get_default _ key dflt = Inl AttributeError"

definition py_get :: "json \<Rightarrow> string \<Rightarrow> exn + json" where
  "py_get data key = py_get_default data key JNull"

text \<open>
  The number a Python numeric value denotes (\<^verbatim>\<open>bool\<close> is a subtype of \<^verbatim>\<open>int\<close>); an
  integer is carried exactly.
\<close>

fun num_val :: "json \<Rightarrow> pyfloat option" where
  "num_val (JBool b) = Some (Finite (if b then 1 else 0))"
| "num_val (JInt n) = Some (Finite (of_int n))"
| "num_val (JFloat x) = Some x"
| "num_val _ = None"

text \<open>\<^verbatim>\<open>x > 0\<close> on a number: exact between integers and floats, false for NaN.\<close>

fun positive :: "pyfloat \<Rightarrow> bool" where
  "positive (Finite q) = (0 < q)"
| "positive PosInf = True"
| "positive NegInf = False"
| "positive NaN = False"

text \<open>\<^verbatim>\<open>v > 0\<close>: defined between numbers, \<^verbatim>\<open>TypeError\<close> otherwise.\<close>

definition py_gt0 :: "json \<Rightarrow> exn + bool" where
  "py_gt0 v = (case num_val v of None \<Rightarrow> Inl TypeError | Some x \<Rightarrow> Inr (positive x))"

text \<open>
  Rounding a rational to the nearest double, ties to even, as IEEE 754 division and
  Python's integer true division do. The magnitude is measured in units of the smallest
  subnormal, \<^verbatim>\<open>2**-1074\<close>; \<open>k\<close> is the number of bits by which it exceeds the 53 bits of
  a mantissa, and these are rounded away. A result of \<^verbatim>\<open>2**1024\<close> or more is an infinity.
\<close>

definition round_half_even :: "rat \<Rightarrow> int" where
  "round_half_even x =
     (let f = \<lfloor>x\<rfloor>; d = x - of_int f
      in if d < 1 / 2 then f else if 1 / 2 < d then f + 1 else if even f then f else f + 1)"

definition float_round :: "rat \<Rightarrow> pyfloat" where
  "float_round x =
     (let y = \<bar>x\<bar> * 2 ^ 1074;
          k = nat (bitlen \<lfloor>y\<rfloor> - 53);
          m = round_half_even (y / 2 ^ k) * 2 ^ k
      in if 2 ^ 2098 \<le> m then (if 0 < x then PosInf else NegInf)
         else Finite (sgn x * of_int m / 2 ^ 1074))"

text \<open>\<^verbatim>\<open>x / 10\<close> for a float \<^verbatim>\<open>x\<close>: the IEEE quotient by \<^verbatim>\<open>10.0\<close>.\<close>

fun float_div10 :: "pyfloat \<Rightarrow> pyfloat" where
  "float_div10 (Finite q) = float_round (q / 10)"
| "float_div10 PosInf = PosInf"
| "float_div10 NegInf = NegInf"
| "float_div10 NaN = NaN"

text \<open>
  \<^verbatim>\<open>n / 10\<close> for an integer \<^verbatim>\<open>n\<close>: the correctly rounded quotient, and \<^verbatim>\<open>OverflowError\<close>
  when it is too large for a float.
\<close>

definition int_truediv10 :: "int \<Rightarrow> exn + json" where
  "int_truediv10 n =
     (case float_round (of_int n / 10) of
        Finite r \<Rightarrow> Inr (JFloat (Finite r))
      | _ \<Rightarrow> Inl OverflowError)"

text \<open>\<^verbatim>\<open>v / 10\<close>: true division, always a float; \<^verbatim>\<open>TypeError\<close> on a non-number.\<close>

fun py_truediv10 :: "json \<Rightarrow> exn + json" where
  "py_truediv10 (JBool b) = int_truediv10 (if b then 1 else 0)"
| "py_truediv10 (JInt n) = int_truediv10 n"
| "py_truediv10 (JFloat x) = Inr (JFloat (float_div10 x))"
| "py_truediv10 _ = Inl TypeError"

text \<open>
  \<^verbatim>\<open>int(value)\<close> on a float: truncation towards zero; \<^verbatim>\<open>ValueError\<close> on NaN and
  \<^verbatim>\<open>OverflowError\<close> on an infinity.
\<close>

definition trunc_rat :: "rat \<Rightarrow> int" where
  "trunc_rat q = (if q < 0 then - \<lfloor>- q\<rfloor> else \<lfloor>q\<rfloor>)"

fun py_int :: "pyfloat \<Rightarrow> exn + int" where
  "py_int (Finite q) = Inr (trunc_rat q)"
| "py_int NaN = Inl ValueError"
| "py_int PosInf = Inl OverflowError"
| "py_int NegInf = Inl OverflowError"

text \<open>\<^verbatim>\<open>str(n)\<close> for an integer, as used by the f-string \<^verbatim>\<open>f"Node {node_id}"\<close>.\<close>

fun str_nat :: "nat \<Rightarrow> string" where
  "str_nat n =
     (if n < 10 then [''0123456789'' ! n]
      else str_nat (n div 10) @ [''0123456789'' ! (n mod 10)])"

declare str_nat.simps [simp del]

definition str_int :: "int \<Rightarrow> string" where
  "str_int i = (if i < 0 then CHR ''-'' # str_nat (nat (- i)) else str_nat (nat i))"

section \<open>The HTTP session\<close>

text \<open>
  \<^verbatim>\<open>session.get(url, params=..., timeout=...)\<close> either raises or yields a response with a
  status code and a body; \<^verbatim>\<open>await response.json()\<close> either raises or yields the decoded
  body. The device is a function from requests to these outcomes, and the session
  records every request it issues, in order.
\<close>

record request =
  url :: string
  params :: "(string \<times> json) list"
  timeout :: nat

record response =
  status :: int
  json_body :: "exn + json"

record session =
  host :: string
  device :: "request \<Rightarrow> exn + response"
  issued :: "request list"

definition BOX_NODE_ID :: int where
  "BOX_NODE_ID = 1"

definition REQUEST_TIMEOUT :: nat where
  "REQUEST_TIMEOUT = 10"

definition base_url :: "session \<Rightarrow> string" where
  "base_url s = ''http://'' @ host s"

definition session_get ::
  "string \<Rightarrow> (string \<times> json) list \<Rightarrow> nat \<Rightarrow> session \<Rightarrow> (exn + response) \<times> session" where
  "session_get u ps t s =
     (let r = \<lparr>url = u, params = ps, timeout = t\<rparr>
      in (device s r, s\<lparr>issued := issued s @ [r]\<rparr>))"

text \<open>aiohttp's \<^verbatim>\<open>raise_for_status()\<close> raises exactly when the status is 400 or more.\<close>

definition raise_for_status :: "response \<Rightarrow> exn + unit" where
  "raise_for_status r = (if 400 \<le> status r then Inl ClientResponseError else Inr ())"

section \<open>State codes and labels\<close>

definition STATE_MAP :: "(string \<times> string) list" where
  "STATE_MAP =
     [(''AUTO'', ''Auto''),
      (''MAN1'', ''Manual 1''),
      (''CNT1'', ''Manual 1 Forced''),
      (''MAN2'', ''Manual 2''),
      (''CNT2'', ''Manual 2 Forced''),
      (''MAN3'', ''Manual 3''),
      (''CNT3'', ''Manual 3 Forced''),
      (''EMPT'', ''Away'')]"

text \<open>\<^verbatim>\<open>{v: k for k, v in STATE_MAP.items()}\<close>: a later entry overwrites an earlier one.\<close>

definition STATE_REVERSE_MAP :: "string \<rightharpoonup> string" where
  "STATE_REVERSE_MAP = fold (\<lambda>(k, v) m. m(v \<mapsto> k)) STATE_MAP Map.empty"

text \<open>
  Every operation of the client has the type \<open>session \<Rightarrow> (exn + 'a) \<times> session\<close>:
  \<open>Inl e\<close> is the exception \<open>e\<close> leaving the coroutine, \<open>Inr v\<close> is the returned value.
\<close>

definition async_get_ventilation_state_options :: "session \<Rightarrow> (exn + string list) \<times> session" where
  "async_get_ventilation_state_options s = (Inr (map snd STATE_MAP), s)"

definition async_set_ventilation_state :: "string \<Rightarrow> session \<Rightarrow> (exn + bool) \<times> session" where
  "async_set_ventilation_state state s =
     (let api_state = (case STATE_REVERSE_MAP state of None \<Rightarrow> state | Some c \<Rightarrow> c)
      in case session_get (base_url s @ ''/nodesetoperstate'')
                [(''node'', JInt BOX_NODE_ID), (''value'', JStr api_state)] REQUEST_TIMEOUT s of
           (Inl e, s') \<Rightarrow> (Inl e, s')
         | (Inr response, s') \<Rightarrow>
             (case raise_for_status response of
                Inl e \<Rightarrow> (Inl e, s')
              | Inr _ \<Rightarrow> (Inr (status response = 200), s')))"

section \<open>Energy information\<close>

text \<open>
  Modelled from the spec: the class \<^verbatim>\<open>DucoBoxEnergyInfo\<close> is declared in \<^verbatim>\<open>models.py\<close>,
  which is not at hand. It is taken to be the plain record of the spec's data model
  (EnergyInfo) whose fields are the keyword arguments of the constructor call in
  \<^verbatim>\<open>api.py\<close>. A field holds whatever Python value the client stores in it; \<open>JNull\<close> is
  an absent field.
\<close>

record DucoBoxEnergyInfo =
  temp_oda :: json
  temp_sup :: json
  temp_eta :: json
  temp_eha :: json
  bypass_status :: json
  filter_remaining_time :: json
  supply_fan_speed :: json
  supply_fan_pwm_percentage :: json
  exhaust_fan_speed :: json
  exhaust_fan_pwm_percentage :: json

text \<open>
  \<^verbatim>\<open>energy_data.get(key) / 10 if energy_data.get(key) else None\<close>: the condition is
  evaluated first, then the division.
\<close>

definition temp_field :: "json \<Rightarrow> string \<Rightarrow> exn + json" where
  "temp_field energy_data key =
     bind_exn (py_get energy_data key) (\<lambda>c.
       if truthy c then bind_exn (py_get energy_data key) py_truediv10 else Inr JNull)"

definition decode_energy :: "json \<Rightarrow> exn + DucoBoxEnergyInfo" where
  "decode_energy data =
     bind_exn (py_get_default data ''EnergyInfo'' (JObj [])) (\<lambda>energy_data.
     bind_exn (py_get_default data ''EnergyFan'' (JObj [])) (\<lambda>fan_data.
     bind_exn (temp_field energy_data ''TempODA'') (\<lambda>oda.
     bind_exn (temp_field energy_data ''TempSUP'') (\<lambda>sup.
     bind_exn (temp_field energy_data ''TempETA'') (\<lambda>eta.
     bind_exn (temp_field energy_data ''TempEHA'') (\<lambda>eha.
     bind_exn (py_get energy_data ''BypassStatus'') (\<lambda>bypass.
     bind_exn (py_get energy_data ''FilterRemainingTime'') (\<lambda>filt.
     bind_exn (py_get fan_data ''SupplyFanSpeed'') (\<lambda>sfs.
     bind_exn (py_get fan_data ''SupplyFanPwmPercentage'') (\<lambda>sfp.
     bind_exn (py_get fan_data ''ExhaustFanSpeed'') (\<lambda>efs.
     bind_exn (py_get fan_data ''ExhaustFanPwmPercentage'') (\<lambda>efp.
       Inr \<lparr>temp_oda = oda, temp_sup = sup, temp_eta = eta, temp_eha = eha,
            bypass_status = bypass, filter_remaining_time = filt,
            supply_fan_speed = sfs, supply_fan_pwm_percentage = sfp,
            exhaust_fan_speed = efs, exhaust_fan_pwm_percentage = efp\<rparr>))))))))))))"

text \<open>The body of the \<^verbatim>\<open>try\<close> block of \<^verbatim>\<open>async_get_energy_info\<close>.\<close>

definition energy_info_body :: "session \<Rightarrow> (exn + DucoBoxEnergyInfo) \<times> session" where
  "energy_info_body s =
     (case session_get (base_url s @ ''/boxinfoget'') [] REQUEST_TIMEOUT s of
        (Inl e, s') \<Rightarrow> (Inl e, s')
      | (Inr response, s') \<Rightarrow>
          (bind_exn (raise_for_status response) (\<lambda>_.
           bind_exn (json_body response) decode_energy), s'))"

text \<open>\<^verbatim>\<open>except Exception\<close>: every exception of the body becomes the result \<^verbatim>\<open>None\<close>.\<close>

definition async_get_energy_info :: "session \<Rightarrow> (exn + DucoBoxEnergyInfo option) \<times> session" where
  "async_get_energy_info s =
     (case energy_info_body s of
        (Inl err, s') \<Rightarrow> (Inr None, s')
      | (Inr info, s') \<Rightarrow> (Inr (Some info), s'))"

section \<open>The node scanner\<close>

text \<open>
  Modelled from the spec: the class \<^verbatim>\<open>DucoBoxNodeData\<close> of \<^verbatim>\<open>models.py\<close> (the spec's Node),
  a plain record whose fields are the keyword arguments of the constructor call.
\<close>

record DucoBoxNodeData =
  node_id :: int
  location :: json
  devtype :: json
  temp :: json
  co2 :: json
  rh :: json
  state :: json
  mode :: json
  swversion :: json
  serialnb :: json
  error :: json
  ovrl :: json
  netw :: json
  cntdwn :: json
  endtime :: json
  rssi_n2m :: json
  rssi_n2h :: json
  hop_via :: json
  asso :: json
  cerr :: json

text \<open>\<^verbatim>\<open>data.get("rh") if data.get("rh") and data.get("rh") > 0 else None\<close>\<close>

definition rh_field :: "json \<Rightarrow> exn + json" where
  "rh_field data =
     bind_exn (py_get data ''rh'') (\<lambda>c.
       if truthy c then
         bind_exn (py_get data ''rh'') (\<lambda>v.
         bind_exn (py_gt0 v) (\<lambda>positive.
           if positive then py_get data ''rh'' else Inr JNull))
       else Inr JNull)"

text \<open>
  What the scanner does with a decoded body: \<open>Inr None\<close> when the validity check fails
  and nothing is appended, \<open>Inr (Some n)\<close> when the node \<open>n\<close> is appended.
\<close>

definition decode_node :: "int \<Rightarrow> json \<Rightarrow> exn + DucoBoxNodeData option" where
  "decode_node nid data =
     bind_exn (py_get data ''location'') (\<lambda>loc_ok.
     if \<not> truthy loc_ok then Inr None else
     bind_exn (py_get data ''devtype'') (\<lambda>dev_ok.
     if \<not> truthy dev_ok then Inr None else
     bind_exn (py_get_default data ''location'' (JStr (''Node '' @ str_int nid))) (\<lambda>loc.
     bind_exn (py_get_default data ''devtype'' (JStr ''Unknown'')) (\<lambda>dev.
     bind_exn (py_get data ''temp'') (\<lambda>v_temp.
     bind_exn (py_get data ''co2'') (\<lambda>v_co2.
     bind_exn (rh_field data) (\<lambda>v_rh.
     bind_exn (py_get data ''state'') (\<lambda>v_state.
     bind_exn (py_get data ''mode'') (\<lambda>v_mode.
     bind_exn (py_get data ''swversion'') (\<lambda>v_swversion.
     bind_exn (py_get data ''serialnb'') (\<lambda>v_serialnb.
     bind_exn (py_get data ''error'') (\<lambda>v_error.
     bind_exn (py_get data ''ovrl'') (\<lambda>v_ovrl.
     bind_exn (py_get data ''netw'') (\<lambda>v_netw.
     bind_exn (py_get data ''cntdwn'') (\<lambda>v_cntdwn.
     bind_exn (py_get data ''endtime'') (\<lambda>v_endtime.
     bind_exn (py_get data ''rssi_n2m'') (\<lambda>v_rssi_n2m.
     bind_exn (py_get data ''rssi_n2h'') (\<lambda>v_rssi_n2h.
     bind_exn (py_get data ''hop_via'') (\<lambda>v_hop_via.
     bind_exn (py_get data ''asso'') (\<lambda>v_asso.
     bind_exn (py_get data ''cerr'') (\<lambda>v_cerr.
       Inr (Some \<lparr>node_id = nid, location = loc, devtype = dev, temp = v_temp,
                  co2 = v_co2, rh = v_rh, state = v_state, mode = v_mode,
                  swversion = v_swversion, serialnb = v_serialnb, error = v_error,
                  ovrl = v_ovrl, netw = v_netw, cntdwn = v_cntdwn, endtime = v_endtime,
                  rssi_n2m = v_rssi_n2m, rssi_n2h = v_rssi_n2h, hop_via = v_hop_via,
                  asso = v_asso, cerr = v_cerr\<rparr>))))))))))))))))))))))"

text \<open>The body of the \<^verbatim>\<open>try\<close> block inside the scanner's loop, for one candidate id.\<close>

definition probe :: "int \<Rightarrow> session \<Rightarrow> (exn + DucoBoxNodeData option) \<times> session" where
  "probe nid s =
     (case session_get (base_url s @ ''/nodeinfoget'') [(''node'', JInt nid)] 2 s of
        (Inl e, s') \<Rightarrow> (Inl e, s')
      | (Inr response, s') \<Rightarrow>
          (if status response = 200
           then bind_exn (json_body response) (decode_node nid)
           else Inr None, s'))"

text \<open>
  One iteration of the inner loop: \<^verbatim>\<open>except Exception: ... continue\<close> keeps the list as
  it is and goes on with the next candidate.
\<close>

definition scan_candidate ::
  "int \<Rightarrow> DucoBoxNodeData list \<times> session \<Rightarrow> DucoBoxNodeData list \<times> session" where
  "scan_candidate nid = (\<lambda>(nodes, s).
     case probe nid s of
       (Inl err, s') \<Rightarrow> (nodes, s')
     | (Inr None, s') \<Rightarrow> (nodes, s')
     | (Inr (Some n), s') \<Rightarrow> (nodes @ [n], s'))"

text \<open>\<^verbatim>\<open>[range(2, 11), range(50, 101)]\<close>\<close>

definition node_ranges :: "int list list" where
  "node_ranges = [upto 2 10, upto 50 100]"

definition async_get_nodes :: "session \<Rightarrow> (exn + DucoBoxNodeData list) \<times> session" where
  "async_get_nodes s =
     (case fold (\<lambda>node_range. fold scan_candidate node_range) node_ranges ([], s) of
        (nodes, s') \<Rightarrow> (Inr nodes, s'))"

text \<open>
  Two notions used to state what the scanner does: the request that the probe of a
  candidate issues (lines 335 to 338), and what the candidate adds to the list.
\<close>

definition probe_request :: "session \<Rightarrow> int \<Rightarrow> request" where
  "probe_request s nid =
     \<lparr>url = base_url s @ ''/nodeinfoget'', params = [(''node'', JInt nid)], timeout = 2\<rparr>"

definition found :: "session \<Rightarrow> int \<Rightarrow> DucoBoxNodeData list" where
  "found s nid = (case fst (probe nid s) of Inr (Some n) \<Rightarrow> [n] | _ \<Rightarrow> [])"

section \<open>The state reader\<close>

text \<open>
  Modelled from the spec: the class \<^verbatim>\<open>DucoBoxData\<close> of \<^verbatim>\<open>models.py\<close> (the spec's
  OperatingSnapshot), a plain record. Its fields \<^verbatim>\<open>state\<close>, \<^verbatim>\<open>mode\<close> and \<^verbatim>\<open>rh\<close> carry
  the prefix \<open>box_\<close> here, since the node record has fields of the same names.
\<close>

record DucoBoxData =
  box_state :: json
  time_state_remain :: json
  time_state_end :: json
  box_mode :: json
  flow_lvl_tgt :: json
  box_rh :: json
  energy_info :: "DucoBoxEnergyInfo option"
  nodes :: "DucoBoxNodeData list"

text \<open>
  \<^verbatim>\<open>state in self.STATE_MAP\<close>: a list or a dict is unhashable and raises
  \<^verbatim>\<open>TypeError\<close>; a string is looked up; any other value is hashable and is no key.
\<close>

fun in_STATE_MAP :: "json \<Rightarrow> exn + bool" where
  "in_STATE_MAP (JStr c) = Inr (c \<in> set (map fst STATE_MAP))"
| "in_STATE_MAP (JArr xs) = Inl TypeError"
| "in_STATE_MAP (JObj kvs) = Inl TypeError"
| "in_STATE_MAP _ = Inr False"

text \<open>\<^verbatim>\<open>if state and state in self.STATE_MAP: state = self.STATE_MAP[state]\<close>\<close>

definition friendly_state :: "json \<Rightarrow> exn + json" where
  "friendly_state st =
     (if truthy st then
        bind_exn (in_STATE_MAP st) (\<lambda>known.
          if known then
            (case st of
               JStr c \<Rightarrow> (case map_of STATE_MAP c of Some l \<Rightarrow> Inr (JStr l) | None \<Rightarrow> Inr st)
             | _ \<Rightarrow> Inr st)
          else Inr st)
      else Inr st)"

definition async_get_data :: "bool \<Rightarrow> bool \<Rightarrow> session \<Rightarrow> (exn + DucoBoxData) \<times> session" where
  "async_get_data fetch_energy fetch_nodes s =
     (case session_get (base_url s @ ''/nodeinfoget'') [(''node'', JInt BOX_NODE_ID)]
             REQUEST_TIMEOUT s of
        (Inl e, s1) \<Rightarrow> (Inl e, s1)
      | (Inr response, s1) \<Rightarrow>
          (case bind_exn (raise_for_status response) (\<lambda>_.
                bind_exn (json_body response) (\<lambda>data.
                bind_exn (py_get data ''state'') (\<lambda>st.
                bind_exn (py_get data ''mode'') (\<lambda>md.
                bind_exn (py_get data ''trgt'') (\<lambda>tgt.
                bind_exn (py_get data ''rh'') (\<lambda>hum.
                bind_exn (friendly_state st) (\<lambda>st'.
                bind_exn (py_get data ''cntdwn'') (\<lambda>remain.
                bind_exn (py_get data ''endtime'') (\<lambda>endt.
                  Inr (st', remain, endt, md, tgt, hum)))))))))) of
             Inl e \<Rightarrow> (Inl e, s1)
           | Inr (st', remain, endt, md, tgt, hum) \<Rightarrow>
               (case (if fetch_energy then async_get_energy_info s1 else (Inr None, s1)) of
                  (Inl e, s2) \<Rightarrow> (Inl e, s2)
                | (Inr energy, s2) \<Rightarrow>
                    (case (if fetch_nodes then async_get_nodes s2 else (Inr [], s2)) of
                       (Inl e, s3) \<Rightarrow> (Inl e, s3)
                     | (Inr ns, s3) \<Rightarrow>
                         (Inr \<lparr>box_state = st', time_state_remain = remain,
                               time_state_end = endt, box_mode = md, flow_lvl_tgt = tgt,
                               box_rh = hum, energy_info = energy, nodes = ns\<rparr>, s3)))))"

section \<open>The node config aggregator\<close>

text \<open>
  Modelled from the spec: the class \<^verbatim>\<open>DucoBoxNodeConfigParam\<close> of \<^verbatim>\<open>models.py\<close> (the
  spec's ParamRange), a plain record. Its fields are \<^verbatim>\<open>val\<close>, \<^verbatim>\<open>min\<close>, \<^verbatim>\<open>max\<close> and
  \<^verbatim>\<open>inc\<close>; they carry the prefix \<open>p_\<close> here, since \<open>min\<close> and \<open>max\<close> are constants of
  HOL.
\<close>

record DucoBoxNodeConfigParam =
  p_val :: json
  p_min :: json
  p_max :: json
  p_inc :: json

text \<open>
  Modelled from the spec: the class \<^verbatim>\<open>DucoBoxNodeConfig\<close> of \<^verbatim>\<open>models.py\<close> (the spec's
  NodeConfig), a plain record. Its fields \<^verbatim>\<open>node_id\<close> and \<^verbatim>\<open>location\<close> carry the prefix
  \<open>cfg_\<close> here, since the node record has fields of the same names.
\<close>

record DucoBoxNodeConfig =
  cfg_node_id :: int
  co2_setpoint :: "DucoBoxNodeConfigParam option"
  rh_setpoint :: "DucoBoxNodeConfigParam option"
  manual1 :: "DucoBoxNodeConfigParam option"
  manual2 :: "DucoBoxNodeConfigParam option"
  manual3 :: "DucoBoxNodeConfigParam option"
  manual_timeout :: "DucoBoxNodeConfigParam option"
  temp_dependent :: "DucoBoxNodeConfigParam option"
  rh_delta :: "DucoBoxNodeConfigParam option"
  sensor_visu_level :: "DucoBoxNodeConfigParam option"
  auto_min :: "DucoBoxNodeConfigParam option"
  auto_max :: "DucoBoxNodeConfigParam option"
  capacity :: "DucoBoxNodeConfigParam option"
  bypass_mode :: "DucoBoxNodeConfigParam option"
  bypass_adaptive :: "DucoBoxNodeConfigParam option"
  comfort_temperature :: "DucoBoxNodeConfigParam option"
  filter_reset :: "DucoBoxNodeConfigParam option"
  calib_pin_max :: "DucoBoxNodeConfigParam option"
  calib_pout_max :: "DucoBoxNodeConfigParam option"
  calib_qout :: "DucoBoxNodeConfigParam option"
  program_mode_zone1 :: "DucoBoxNodeConfigParam option"
  program_mode_zone2 :: "DucoBoxNodeConfigParam option"
  cfg_location :: json

text \<open>
  \<^verbatim>\<open>if key in data and isinstance(data[key], dict)\<close>. On a dict \<^verbatim>\<open>in\<close> tests the keys.
  On a list it tests the elements and on a string it tests substrings; when it holds
  there, \<^verbatim>\<open>data[key]\<close> raises \<^verbatim>\<open>TypeError\<close> (a string is no index). On any other value
  \<^verbatim>\<open>in\<close> itself raises \<^verbatim>\<open>TypeError\<close>.
\<close>

fun create_param :: "json \<Rightarrow> string \<Rightarrow> exn + DucoBoxNodeConfigParam option" where
  "create_param (JObj kvs) key =
     (case map_of kvs key of
        Some (JObj param_data) \<Rightarrow>
          Inr (Some \<lparr>p_val = dict_get param_data ''Val'' (JInt 0),
                     p_min = dict_get param_data ''Min'' (JInt 0),
                     p_max = dict_get param_data ''Max'' (JInt 0),
                     p_inc = dict_get param_data ''Inc'' (JInt 1)\<rparr>)
      | _ \<Rightarrow> Inr None)"
| "create_param (JArr xs) key = (if JStr key \<in> set xs then Inl TypeError else Inr None)"
| "create_param (JStr t) key = (if sublist key t then Inl TypeError else Inr None)"
| "create_param _ key = Inl TypeError"

text \<open>The constructor call of the branch for node 1 (lines 423 to 448).\<close>

definition merge_config :: "int \<Rightarrow> json \<Rightarrow> json \<Rightarrow> exn + DucoBoxNodeConfig" where
  "merge_config nid node_data energy_data =
     bind_exn (create_param node_data ''CO2Setpoint'') (\<lambda>c_co2.
     bind_exn (create_param node_data ''RHSetpoint'') (\<lambda>c_rh.
     bind_exn (create_param node_data ''Manual1'') (\<lambda>c_m1.
     bind_exn (create_param node_data ''Manual2'') (\<lambda>c_m2.
     bind_exn (create_param node_data ''Manual3'') (\<lambda>c_m3.
     bind_exn (create_param node_data ''ManualTimeout'') (\<lambda>c_mt.
     bind_exn (create_param node_data ''TempDependent'') (\<lambda>c_td.
     bind_exn (create_param node_data ''RHDelta'') (\<lambda>c_rd.
     bind_exn (create_param node_data ''SensorVisuLevel'') (\<lambda>c_sv.
     bind_exn (create_param node_data ''AutoMin'') (\<lambda>c_amin.
     bind_exn (create_param node_data ''AutoMax'') (\<lambda>c_amax.
     bind_exn (create_param node_data ''Capacity'') (\<lambda>c_cap.
     bind_exn (create_param energy_data ''BypassMode'') (\<lambda>c_bm.
     bind_exn (create_param energy_data ''BypassAdaptive'') (\<lambda>c_ba.
     bind_exn (create_param energy_data ''ComfortTemperature'') (\<lambda>c_ct.
     bind_exn (create_param energy_data ''FilterReset'') (\<lambda>c_fr.
     bind_exn (create_param energy_data ''CalibPinMax'') (\<lambda>c_pin.
     bind_exn (create_param energy_data ''CalibPoutMax'') (\<lambda>c_pout.
     bind_exn (create_param energy_data ''CalibQout'') (\<lambda>c_q.
     bind_exn (create_param energy_data ''ProgramModeZone1'') (\<lambda>c_z1.
     bind_exn (create_param energy_data ''ProgramModeZone2'') (\<lambda>c_z2.
     bind_exn (py_get node_data ''Location'') (\<lambda>loc.
       Inr \<lparr>cfg_node_id = nid, co2_setpoint = c_co2, rh_setpoint = c_rh,
            manual1 = c_m1, manual2 = c_m2, manual3 = c_m3, manual_timeout = c_mt,
            temp_dependent = c_td, rh_delta = c_rd, sensor_visu_level = c_sv,
            auto_min = c_amin, auto_max = c_amax, capacity = c_cap,
            bypass_mode = c_bm, bypass_adaptive = c_ba, comfort_temperature = c_ct,
            filter_reset = c_fr, calib_pin_max = c_pin, calib_pout_max = c_pout,
            calib_qout = c_q, program_mode_zone1 = c_z1, program_mode_zone2 = c_z2,
            cfg_location = loc\<rparr>))))))))))))))))))))))"

text \<open>The constructor call of the branch for the other nodes (lines 459 to 483).\<close>

definition node_only_config :: "int \<Rightarrow> json \<Rightarrow> exn + DucoBoxNodeConfig" where
  "node_only_config nid data =
     bind_exn (create_param data ''CO2Setpoint'') (\<lambda>c_co2.
     bind_exn (create_param data ''RHSetpoint'') (\<lambda>c_rh.
     bind_exn (create_param data ''Manual1'') (\<lambda>c_m1.
     bind_exn (create_param data ''Manual2'') (\<lambda>c_m2.
     bind_exn (create_param data ''Manual3'') (\<lambda>c_m3.
     bind_exn (create_param data ''ManualTimeout'') (\<lambda>c_mt.
     bind_exn (create_param data ''TempDependent'') (\<lambda>c_td.
     bind_exn (create_param data ''RHDelta'') (\<lambda>c_rd.
     bind_exn (create_param data ''SensorVisuLevel'') (\<lambda>c_sv.
     bind_exn (py_get data ''Location'') (\<lambda>loc.
       Inr \<lparr>cfg_node_id = nid, co2_setpoint = c_co2, rh_setpoint = c_rh,
            manual1 = c_m1, manual2 = c_m2, manual3 = c_m3, manual_timeout = c_mt,
            temp_dependent = c_td, rh_delta = c_rd, sensor_visu_level = c_sv,
            auto_min = None, auto_max = None, capacity = None,
            bypass_mode = None, bypass_adaptive = None, comfort_temperature = None,
            filter_reset = None, calib_pin_max = None, calib_pout_max = None,
            calib_qout = None, program_mode_zone1 = None, program_mode_zone2 = None,
            cfg_location = loc\<rparr>))))))))))"

text \<open>
  The body of the \<^verbatim>\<open>try\<close> block of \<^verbatim>\<open>async_get_node_config\<close>. \<open>Inr None\<close> is the
  fall-through to the final \<^verbatim>\<open>return None\<close>. For node 1, \<^verbatim>\<open>node_data\<close> and
  \<^verbatim>\<open>energy_data\<close> start as \<^verbatim>\<open>{}\<close> and are replaced only when the status is 200.
\<close>

definition node_config_body ::
  "int \<Rightarrow> session \<Rightarrow> (exn + DucoBoxNodeConfig option) \<times> session" where
  "node_config_body nid s =
     (if nid = 1 then
        (case session_get (base_url s @ ''/nodeconfigget'') [(''node'', JInt nid)]
                REQUEST_TIMEOUT s of
           (Inl e, s1) \<Rightarrow> (Inl e, s1)
         | (Inr response, s1) \<Rightarrow>
             (case (if status response = 200 then json_body response else Inr (JObj [])) of
                Inl e \<Rightarrow> (Inl e, s1)
              | Inr node_data \<Rightarrow>
                  (case session_get (base_url s1 @ ''/boxconfigget'') [] REQUEST_TIMEOUT s1 of
                     (Inl e, s2) \<Rightarrow> (Inl e, s2)
                   | (Inr box_response, s2) \<Rightarrow>
                       (bind_exn
                          (if status box_response = 200
                           then bind_exn (json_body box_response) (\<lambda>box_data.
                                  py_get_default box_data ''Energy'' (JObj []))
                           else Inr (JObj []))
                          (\<lambda>energy_data.
                             bind_exn (merge_config nid node_data energy_data) (\<lambda>c.
                               Inr (Some c))), s2))))
      else
        (case session_get (base_url s @ ''/nodeconfigget'') [(''node'', JInt nid)]
                REQUEST_TIMEOUT s of
           (Inl e, s1) \<Rightarrow> (Inl e, s1)
         | (Inr response, s1) \<Rightarrow>
             (if status response = 200
              then bind_exn (json_body response) (\<lambda>data.
                   bind_exn (node_only_config nid data) (\<lambda>c. Inr (Some c)))
              else Inr None, s1)))"

definition async_get_node_config ::
  "int \<Rightarrow> session \<Rightarrow> (exn + DucoBoxNodeConfig option) \<times> session" where
  "async_get_node_config nid s =
     (case node_config_body nid s of
        (Inl err, s') \<Rightarrow> (Inr None, s')
      | (Inr r, s') \<Rightarrow> (Inr r, s'))"

section \<open>The command issuer\<close>

definition box_level_params :: "string set" where
  "box_level_params =
     {''BypassMode'', ''BypassAdaptive'', ''ComfortTemperature'', ''FilterReset'',
      ''CalibPinMax'', ''CalibPoutMax'', ''CalibQout'', ''ProgramModeZone1'',
      ''ProgramModeZone2''}"

text \<open>
  The body of the \<^verbatim>\<open>try\<close> block of \<^verbatim>\<open>async_set_node_config\<close>; \<open>Inr False\<close> is the
  fall-through to the final \<^verbatim>\<open>return False\<close>. The dict \<^verbatim>\<open>params\<close> is built before the
  request, so \<^verbatim>\<open>int(value)\<close> raises before anything is sent.
\<close>

definition set_node_config_body ::
  "int \<Rightarrow> string \<Rightarrow> pyfloat \<Rightarrow> session \<Rightarrow> (exn + bool) \<times> session" where
  "set_node_config_body nid parameter v s =
     (if nid = 1 \<and> parameter \<in> box_level_params then
        (case py_int v of
           Inl e \<Rightarrow> (Inl e, s)
         | Inr k \<Rightarrow>
             (case session_get (base_url s @ ''/boxconfigset'')
                     [(''mod'', JStr ''Energy''), (''para'', JStr parameter),
                      (''value'', JInt k)] REQUEST_TIMEOUT s of
                (Inl e, s') \<Rightarrow> (Inl e, s')
              | (Inr response, s') \<Rightarrow> (Inr (status response = 200), s')))
      else
        (case py_int v of
           Inl e \<Rightarrow> (Inl e, s)
         | Inr k \<Rightarrow>
             (case session_get (base_url s @ ''/nodeconfigset'')
                     [(''node'', JInt nid), (''para'', JStr parameter),
                      (''value'', JInt k)] REQUEST_TIMEOUT s of
                (Inl e, s') \<Rightarrow> (Inl e, s')
              | (Inr response, s') \<Rightarrow> (Inr (status response = 200), s'))))"

definition async_set_node_config ::
  "int \<Rightarrow> string \<Rightarrow> pyfloat \<Rightarrow> session \<Rightarrow> (exn + bool) \<times> session" where
  "async_set_node_config nid parameter v s =
     (case set_node_config_body nid parameter v s of
        (Inl err, s') \<Rightarrow> (Inr False, s')
      | (Inr ok, s') \<Rightarrow> (Inr ok, s'))"

definition set_node_override_body :: "int \<Rightarrow> int \<Rightarrow> session \<Rightarrow> (exn + bool) \<times> session" where
  "set_node_override_body nid percentage s =
     (case session_get (base_url s @ ''/nodesetoverrule'')
             [(''node'', JInt nid), (''value'', JInt percentage)] REQUEST_TIMEOUT s of
        (Inl e, s') \<Rightarrow> (Inl e, s')
      | (Inr response, s') \<Rightarrow> (Inr (status response = 200), s'))"

definition async_set_node_override :: "int \<Rightarrow> int \<Rightarrow> session \<Rightarrow> (exn + bool) \<times> session" where
  "async_set_node_override nid percentage s =
     (case set_node_override_body nid percentage s of
        (Inl err, s') \<Rightarrow> (Inr False, s')
      | (Inr ok, s') \<Rightarrow> (Inr ok, s'))"

section \<open>The presence rule and example devices\<close>

text \<open>
  The presence rule in the words of the specification: the probe returns HTTP 200, the
  body decodes, and both \<^verbatim>\<open>location\<close> and \<^verbatim>\<open>devtype\<close> are present and non-empty.
\<close>

definition presence_rule :: "session \<Rightarrow> int \<Rightarrow> bool" where
  "presence_rule s nid =
     (case device s (probe_request s nid) of
        Inl e \<Rightarrow> False
      | Inr response \<Rightarrow>
          status response = 200 \<and>
          (case json_body response of
             Inr (JObj kvs) \<Rightarrow>
               truthy (dict_get kvs ''location'' JNull) \<and> truthy (dict_get kvs ''devtype'' JNull)
           | _ \<Rightarrow> False))"

text \<open>
  The humidity check of the source can be evaluated: the raw \<^verbatim>\<open>rh\<close> is falsy, or it
  is a number and can be compared with 0.
\<close>

definition rh_comparable :: "session \<Rightarrow> int \<Rightarrow> bool" where
  "rh_comparable s nid =
     (case device s (probe_request s nid) of
        Inr response \<Rightarrow>
          (case json_body response of
             Inr (JObj kvs) \<Rightarrow>
               (if truthy (dict_get kvs ''rh'' JNull)
                then num_val (dict_get kvs ''rh'' JNull) \<noteq> None else True)
           | _ \<Rightarrow> True)
      | Inl e \<Rightarrow> True)"

text \<open>
  A device on which only node 2 answers, with a humidity of 55; every other request
  times out.
\<close>

definition bathroom_body :: json where
  "bathroom_body =
     JObj [(''location'', JStr ''Bathroom''), (''devtype'', JStr ''UCRH''), (''rh'', JInt 55)]"

definition one_node_session :: session where
  "one_node_session =
     \<lparr>host = ''duco.local'',
      device = (\<lambda>r. if params r = [(''node'', JInt 2)]
                     then Inr \<lparr>status = 200, json_body = Inr bathroom_body\<rparr>
                     else Inl TimeoutError),
      issued = []\<rparr>"

definition bathroom_node :: DucoBoxNodeData where
  "bathroom_node =
     \<lparr>node_id = 2, location = JStr ''Bathroom'', devtype = JStr ''UCRH'', temp = JNull,
      co2 = JNull, rh = JInt 55, state = JNull, mode = JNull, swversion = JNull,
      serialnb = JNull, error = JNull, ovrl = JNull, netw = JNull, cntdwn = JNull,
      endtime = JNull, rssi_n2m = JNull, rssi_n2h = JNull, hop_via = JNull, asso = JNull,
      cerr = JNull\<rparr>"

text \<open>A device that reports the humidity as a string, for every node.\<close>

definition text_rh_session :: session where
  "text_rh_session =
     \<lparr>host = ''duco.local'',
      device = (\<lambda>r. Inr \<lparr>status = 200,
                         json_body = Inr (JObj [(''location'', JStr ''Bathroom''),
                                                (''devtype'', JStr ''UCRH''),
                                                (''rh'', JStr ''55'')])\<rparr>),
      issued = []\<rparr>"

text \<open>A device that cannot be reached, and one that answers every request with 500.\<close>

definition offline_session :: session where
  "offline_session = \<lparr>host = ''duco.local'', device = (\<lambda>r. Inl ClientError), issued = []\<rparr>"

definition error_500_session :: session where
  "error_500_session =
     \<lparr>host = ''duco.local'',
      device = (\<lambda>r. Inr \<lparr>status = 500, json_body = Inl DecodeError\<rparr>),
      issued = []\<rparr>"

text \<open>A device that answers every request with 200 and a body that is no JSON.\<close>

definition accepting_session :: session where
  "accepting_session =
     \<lparr>host = ''duco.local'',
      device = (\<lambda>r. Inr \<lparr>status = 200, json_body = Inl DecodeError\<rparr>),
      issued = []\<rparr>"

text \<open>
  A device whose box telemetry carries an outdoor temperature of 215 tenths of a degree
  and a supply temperature of 0, and the reading the client decodes from it.
\<close>

definition energy_session :: session where
  "energy_session =
     \<lparr>host = ''duco.local'',
      device = (\<lambda>r. Inr \<lparr>status = 200,
                         json_body = Inr (JObj
                           [(''EnergyInfo'', JObj [(''TempODA'', JInt 215), (''TempSUP'', JInt 0),
                                                   (''BypassStatus'', JInt 1)]),
                            (''EnergyFan'', JObj [(''SupplyFanSpeed'', JInt 1200)])])\<rparr>),
      issued = []\<rparr>"

definition energy_reading :: DucoBoxEnergyInfo where
  "energy_reading =
     \<lparr>temp_oda = JFloat (Finite (43 / 2)), temp_sup = JNull, temp_eta = JNull, temp_eha = JNull,
      bypass_status = JInt 1, filter_remaining_time = JNull, supply_fan_speed = JInt 1200,
      supply_fan_pwm_percentage = JNull, exhaust_fan_speed = JNull,
      exhaust_fan_pwm_percentage = JNull\<rparr>"

text \<open>
  A sub-call of the config aggregator faults when the request raises, or when the status
  is 200 and decoding the body raises (the body is decoded only when the status is 200).
\<close>

definition call_faults :: "exn + response \<Rightarrow> bool" where
  "call_faults reply =
     (case reply of
        Inl e \<Rightarrow> True
      | Inr response \<Rightarrow> status response = 200 \<and> isl (json_body response))"

text \<open>A raw reading whose tenth is too large for a float.\<close>

definition huge_raw :: int where
  "huge_raw = 10 ^ 310"

text \<open>
  A device whose node-level config call answers 500 while the box-level call succeeds:
  its two replies, the \<^verbatim>\<open>Energy\<close> section of its box-level body, and the configuration
  the client returns for node 1 there.
\<close>

definition node_500_reply :: response where
  "node_500_reply = \<lparr>status = 500, json_body = Inl DecodeError\<rparr>"

definition bypass_section :: "(string \<times> json) list" where
  "bypass_section =
     [(''BypassMode'', JObj [(''Val'', JInt 1), (''Min'', JInt 0), (''Max'', JInt 2),
                            (''Inc'', JInt 1)])]"

definition box_200_reply :: response where
  "box_200_reply =
     \<lparr>status = 200, json_body = Inr (JObj [(''Energy'', JObj bypass_section)])\<rparr>"

definition node_500_session :: session where
  "node_500_session =
     \<lparr>host = ''duco.local'',
      device = (\<lambda>r. if url r = ''http://duco.local/nodeconfigget''
                     then Inr node_500_reply else Inr box_200_reply),
      issued = []\<rparr>"

definition box_only_config :: DucoBoxNodeConfig where
  "box_only_config =
     \<lparr>cfg_node_id = 1, co2_setpoint = None, rh_setpoint = None, manual1 = None,
      manual2 = None, manual3 = None, manual_timeout = None, temp_dependent = None,
      rh_delta = None, sensor_visu_level = None, auto_min = None, auto_max = None,
      capacity = None,
      bypass_mode = Some \<lparr>p_val = JInt 1, p_min = JInt 0, p_max = JInt 2, p_inc = JInt 1\<rparr>,
      bypass_adaptive = None, comfort_temperature = None, filter_reset = None,
      calib_pin_max = None, calib_pout_max = None, calib_qout = None,
      program_mode_zone1 = None, program_mode_zone2 = None, cfg_location = JNull\<rparr>"

text \<open>
  The configuration that the slots of a node-level dict \<open>nd\<close> and of an \<^verbatim>\<open>Energy\<close> dict
  \<open>en\<close> make up for node 1.
\<close>

definition merged_config ::
  "(string \<times> json) list \<Rightarrow> (string \<times> json) list \<Rightarrow> DucoBoxNodeConfig" where
  "merged_config nd en =
     \<lparr>cfg_node_id = 1,
      co2_setpoint = projr (create_param (JObj nd) ''CO2Setpoint''),
      rh_setpoint = projr (create_param (JObj nd) ''RHSetpoint''),
      manual1 = projr (create_param (JObj nd) ''Manual1''),
      manual2 = projr (create_param (JObj nd) ''Manual2''),
      manual3 = projr (create_param (JObj nd) ''Manual3''),
      manual_timeout = projr (create_param (JObj nd) ''ManualTimeout''),
      temp_dependent = projr (create_param (JObj nd) ''TempDependent''),
      rh_delta = projr (create_param (JObj nd) ''RHDelta''),
      sensor_visu_level = projr (create_param (JObj nd) ''SensorVisuLevel''),
      auto_min = projr (create_param (JObj nd) ''AutoMin''),
      auto_max = projr (create_param (JObj nd) ''AutoMax''),
      capacity = projr (create_param (JObj nd) ''Capacity''),
      bypass_mode = projr (create_param (JObj en) ''BypassMode''),
      bypass_adaptive = projr (create_param (JObj en) ''BypassAdaptive''),
      comfort_temperature = projr (create_param (JObj en) ''ComfortTemperature''),
      filter_reset = projr (create_param (JObj en) ''FilterReset''),
      calib_pin_max = projr (create_param (JObj en) ''CalibPinMax''),
      calib_pout_max = projr (create_param (JObj en) ''CalibPoutMax''),
      calib_qout = projr (create_param (JObj en) ''CalibQout''),
      program_mode_zone1 = projr (create_param (JObj en) ''ProgramModeZone1''),
      program_mode_zone2 = projr (create_param (JObj en) ''ProgramModeZone2''),
      cfg_location = dict_get nd ''Location'' JNull\<rparr>"

section \<open>Properties\<close>

lemma bind_exn_Inr [simp]: "bind_exn (Inr x) f = f x"
  by (simp add: bind_exn_def)

lemma bind_exn_Inl [simp]: "bind_exn (Inl e) f = Inl e"
  by (simp add: bind_exn_def)

lemma session_get_eq:
  "session_get u ps t s =
     (device s \<lparr>url = u, params = ps, timeout = t\<rparr>,
      s\<lparr>issued := issued s @ [\<lparr>url = u, params = ps, timeout = t\<rparr>]\<rparr>)"
  by (simp add: session_get_def Let_def)

subsection \<open>The scanner as a map over the candidates\<close>

lemma probe_snd: "snd (probe nid s) = s\<lparr>issued := issued s @ [probe_request s nid]\<rparr>"
  by (simp add: probe_def session_get_eq probe_request_def split: sum.splits)

lemma probe_fst_issued: "fst (probe nid (s\<lparr>issued := l\<rparr>)) = fst (probe nid s)"
  by (simp add: probe_def session_get_eq base_url_def split: sum.splits)

lemma probe_request_issued: "probe_request (s\<lparr>issued := l\<rparr>) = probe_request s"
  by (rule ext) (simp add: probe_request_def base_url_def)

lemma found_issued: "found (s\<lparr>issued := l\<rparr>) = found s"
  by (rule ext) (simp add: found_def probe_fst_issued)

lemma scan_candidate_eq:
  "scan_candidate nid (ns, s) =
     (ns @ found s nid, s\<lparr>issued := issued s @ [probe_request s nid]\<rparr>)"
proof -
  obtain r s' where p: "probe nid s = (r, s')" by (cases "probe nid s")
  have "s' = s\<lparr>issued := issued s @ [probe_request s nid]\<rparr>"
    using probe_snd [of nid s] p by simp
  with p show ?thesis
    by (simp add: scan_candidate_def found_def split: sum.splits option.splits)
qed

lemma fold_scan_candidate:
  "fold scan_candidate xs (ns, s) =
     (ns @ concat (map (found s) xs), s\<lparr>issued := issued s @ map (probe_request s) xs\<rparr>)"
proof (induction xs arbitrary: ns s)
  case Nil
  show ?case by simp
next
  case (Cons x xs)
  show ?case
    by (simp add: scan_candidate_eq Cons.IH found_issued probe_request_issued)
qed

lemma async_get_nodes_eq:
  "async_get_nodes s =
     (Inr (concat (map (found s) ([2..10] @ [50..100]))),
      s\<lparr>issued := issued s @ map (probe_request s) ([2..10] @ [50..100])\<rparr>)"
  unfolding async_get_nodes_def node_ranges_def
  by (simp add: fold_scan_candidate found_issued probe_request_issued del: upto_rec_numeral)

text \<open>
  C10: \<^verbatim>\<open>async_get_ventilation_state_options\<close> returns the eight labels of the table in
  table order, whatever the host and the device are; it issues no request (the session
  is returned unchanged) and it never raises.
\<close>

theorem state_options_fixed:
  "async_get_ventilation_state_options s =
     (Inr [''Auto'', ''Manual 1'', ''Manual 1 Forced'', ''Manual 2'', ''Manual 2 Forced'',
           ''Manual 3'', ''Manual 3 Forced'', ''Away''], s)"
  by (simp add: async_get_ventilation_state_options_def STATE_MAP_def)

subsection \<open>Decoding a probe\<close>

lemma rh_field_JObj:
  "rh_field (JObj kvs) =
     (if truthy (dict_get kvs ''rh'' JNull)
      then (case num_val (dict_get kvs ''rh'' JNull) of
              None \<Rightarrow> Inl TypeError
            | Some x \<Rightarrow> Inr (if positive x then dict_get kvs ''rh'' JNull else JNull))
      else Inr JNull)"
  by (simp add: rh_field_def py_get_def py_gt0_def split: option.splits)

lemma dict_get_truthy_default:
  "truthy (dict_get kvs key JNull) \<Longrightarrow> dict_get kvs key (JStr d) = dict_get kvs key JNull"
  by (auto simp: dict_get_def split: option.splits)

lemma decode_node_JObj:
  "decode_node nid (JObj kvs) =
     (if truthy (dict_get kvs ''location'' JNull) \<and> truthy (dict_get kvs ''devtype'' JNull)
      then bind_exn (rh_field (JObj kvs)) (\<lambda>v_rh.
        Inr (Some \<lparr>node_id = nid,
                   location = dict_get kvs ''location'' JNull,
                   devtype = dict_get kvs ''devtype'' JNull,
                   temp = dict_get kvs ''temp'' JNull,
                   co2 = dict_get kvs ''co2'' JNull,
                   rh = v_rh,
                   state = dict_get kvs ''state'' JNull,
                   mode = dict_get kvs ''mode'' JNull,
                   swversion = dict_get kvs ''swversion'' JNull,
                   serialnb = dict_get kvs ''serialnb'' JNull,
                   error = dict_get kvs ''error'' JNull,
                   ovrl = dict_get kvs ''ovrl'' JNull,
                   netw = dict_get kvs ''netw'' JNull,
                   cntdwn = dict_get kvs ''cntdwn'' JNull,
                   endtime = dict_get kvs ''endtime'' JNull,
                   rssi_n2m = dict_get kvs ''rssi_n2m'' JNull,
                   rssi_n2h = dict_get kvs ''rssi_n2h'' JNull,
                   hop_via = dict_get kvs ''hop_via'' JNull,
                   asso = dict_get kvs ''asso'' JNull,
                   cerr = dict_get kvs ''cerr'' JNull\<rparr>))
      else Inr None)"
  by (simp add: decode_node_def py_get_def dict_get_truthy_default)


lemma decode_node_not_dict:
  "decode_node nid JNull = Inl AttributeError"
  "decode_node nid (JBool b) = Inl AttributeError"
  "decode_node nid (JInt i) = Inl AttributeError"
  "decode_node nid (JFloat q) = Inl AttributeError"
  "decode_node nid (JStr t) = Inl AttributeError"
  "decode_node nid (JArr xs) = Inl AttributeError"
  by (simp_all add: decode_node_def py_get_def)

lemma probe_fst:
  "fst (probe nid s) =
     (case device s (probe_request s nid) of
        Inl e \<Rightarrow> Inl e
      | Inr response \<Rightarrow>
          if status response = 200
          then bind_exn (json_body response) (decode_node nid)
          else Inr None)"
  by (simp add: probe_def session_get_eq probe_request_def split: sum.splits)

lemma decode_node_id: "decode_node nid data = Inr (Some n) \<Longrightarrow> node_id n = nid"
  by (cases data)
     (auto simp: decode_node_JObj decode_node_not_dict bind_exn_def
        split: if_splits sum.splits)

lemma found_node_id: "n \<in> set (found s nid) \<Longrightarrow> node_id n = nid"
  by (auto simp: found_def probe_fst bind_exn_def
      split: sum.splits option.splits if_splits dest: decode_node_id [OF sym])

lemma found_cases: "found s nid = [] \<or> (\<exists>n. found s nid = [n] \<and> node_id n = nid)"
  using found_node_id [of _ s nid]
  by (auto simp: found_def split: sum.splits option.splits)

lemma found_nonempty_iff: "found s nid \<noteq> [] \<longleftrightarrow> presence_rule s nid \<and> rh_comparable s nid"
proof (cases "device s (probe_request s nid)")
  case (Inl e)
  then show ?thesis by (simp add: found_def probe_fst presence_rule_def)
next
  case (Inr response)
  show ?thesis
  proof (cases "json_body response")
    case (Inl e)
    with Inr show ?thesis by (simp add: found_def probe_fst presence_rule_def)
  next
    case body: (Inr data)
    show ?thesis
    proof (cases data)
      case (JObj kvs)
      with Inr body show ?thesis
        by (auto simp add: found_def probe_fst presence_rule_def rh_comparable_def
              decode_node_JObj rh_field_JObj split: option.splits)
    qed (use Inr body in \<open>simp_all add: found_def probe_fst presence_rule_def
           decode_node_not_dict\<close>)
  qed
qed

lemma node_ids_concat_found:
  "map node_id (concat (map (found s) xs)) = filter (\<lambda>i. found s i \<noteq> []) xs"
proof (induction xs)
  case Nil
  show ?case by simp
next
  case (Cons x xs)
  from found_cases [of s x] Cons.IH show ?case by auto
qed

lemma node_id_in_concat_found:
  "nid \<in> node_id ` set (concat (map (found s) xs)) \<longleftrightarrow> nid \<in> set xs \<and> found s nid \<noteq> []"
proof -
  have "nid \<in> set (map node_id (concat (map (found s) xs))) \<longleftrightarrow>
        nid \<in> set (filter (\<lambda>i. found s i \<noteq> []) xs)"
    by (simp only: node_ids_concat_found)
  then show ?thesis by simp
qed

text \<open>
  C3, as amended: a candidate is in the returned list exactly when the presence rule
  holds for its probe and, in addition, the humidity check can be evaluated. A truthy
  \<^verbatim>\<open>rh\<close> that is not a number makes \<^verbatim>\<open>data.get("rh") > 0\<close> raise \<^verbatim>\<open>TypeError\<close>, and
  the handler of the loop drops the candidate.
\<close>

theorem scanner_presence:
  assumes "nid \<in> set ([2..10] @ [50..100])"
    and "fst (async_get_nodes s) = Inr ns"
  shows "nid \<in> node_id ` set ns \<longleftrightarrow> presence_rule s nid \<and> rh_comparable s nid"
proof -
  from assms(2) have "ns = concat (map (found s) ([2..10] @ [50..100]))"
    by (simp add: async_get_nodes_eq del: upto_rec_numeral)
  with assms(1) show ?thesis
    by (simp only: node_id_in_concat_found found_nonempty_iff) simp
qed

lemma found_text_rh: "found text_rh_session nid = []"
  by (simp add: found_def probe_fst text_rh_session_def decode_node_JObj rh_field_JObj
        dict_get_def)

text \<open>
  C3, as stated, fails: with a body that carries \<^verbatim>\<open>location\<close>, \<^verbatim>\<open>devtype\<close> and the
  humidity \<^verbatim>\<open>"55"\<close> as a string, the presence rule holds for candidate 2, and the
  returned list is empty.
\<close>

theorem scanner_presence_counterexample:
  "presence_rule text_rh_session 2 \<and> fst (async_get_nodes text_rh_session) = Inr []"
  by (simp add: presence_rule_def async_get_nodes_eq found_text_rh del: upto_rec_numeral)
     (simp add: text_rh_session_def dict_get_def)

text \<open>
  C5: the scanner issues exactly the probes for the ids 2 to 10 followed by 50 to 100,
  one each and in this order, after whatever the session had issued before. It returns
  what the candidates' own probes found, concatenated in that scan order: each candidate
  gives no node or one node that carries its id, so the ids of the returned nodes are the
  candidates that were discovered (the presence rule holds and the humidity check can be
  evaluated), in scan order.
\<close>

theorem scanner_probes_in_order:
  "issued (snd (async_get_nodes s)) =
     issued s @ map (\<lambda>i. \<lparr>url = ''http://'' @ host s @ ''/nodeinfoget'',
                             params = [(''node'', JInt i)], timeout = 2\<rparr>)
                    ([2..10] @ [50..100])
   \<and> fst (async_get_nodes s) = Inr (concat (map (found s) ([2..10] @ [50..100])))
   \<and> (\<forall>i. found s i = [] \<or> (\<exists>n. found s i = [n] \<and> node_id n = i))
   \<and> map node_id (concat (map (found s) ([2..10] @ [50..100]))) =
       filter (\<lambda>i. presence_rule s i \<and> rh_comparable s i) ([2..10] @ [50..100])"
proof -
  have "probe_request s = (\<lambda>i. \<lparr>url = ''http://'' @ host s @ ''/nodeinfoget'',
                             params = [(''node'', JInt i)], timeout = 2\<rparr>)"
    by (rule ext) (simp add: probe_request_def base_url_def)
  then have "issued (snd (async_get_nodes s)) =
     issued s @ map (\<lambda>i. \<lparr>url = ''http://'' @ host s @ ''/nodeinfoget'',
                             params = [(''node'', JInt i)], timeout = 2\<rparr>)
                    ([2..10] @ [50..100])"
    by (simp add: async_get_nodes_eq del: upto_rec_numeral)
  moreover have "fst (async_get_nodes s) = Inr (concat (map (found s) ([2..10] @ [50..100])))"
    by (simp add: async_get_nodes_eq del: upto_rec_numeral)
  moreover have "\<forall>i. found s i = [] \<or> (\<exists>n. found s i = [n] \<and> node_id n = i)"
    using found_cases by blast
  moreover have "map node_id (concat (map (found s) ([2..10] @ [50..100]))) =
       filter (\<lambda>i. presence_rule s i \<and> rh_comparable s i) ([2..10] @ [50..100])"
    by (simp only: node_ids_concat_found found_nonempty_iff)
  ultimately show ?thesis by blast
qed

lemma found_one_node:
  "found one_node_session nid = (if nid = 2 then [bathroom_node] else [])"
  by (simp add: found_def probe_fst probe_request_def one_node_session_def bathroom_body_def
        decode_node_JObj rh_field_JObj dict_get_def bathroom_node_def)

lemma nodes_one_node: "fst (async_get_nodes one_node_session) = Inr [bathroom_node]"
  by (simp add: async_get_nodes_eq found_one_node)

text \<open>
  The scan of the device on which only node 2 answers: all probes are issued, and the
  result is the one node of id 2.
\<close>

theorem scanner_probes_in_order_witness:
  "issued (snd (async_get_nodes one_node_session)) =
     map (\<lambda>i. \<lparr>url = ''http://duco.local/nodeinfoget'', params = [(''node'', JInt i)],
                  timeout = 2\<rparr>) ([2..10] @ [50..100])
   \<and> fst (async_get_nodes one_node_session) = Inr [bathroom_node]
   \<and> node_id bathroom_node = 2"
proof -
  have "concat (map (found one_node_session) ([2..10] @ [50..100])) = [bathroom_node]"
    by (simp add: found_one_node)
  moreover have "host one_node_session = ''duco.local''" and "issued one_node_session = []"
    by (simp_all add: one_node_session_def)
  moreover have "node_id bathroom_node = 2"
    by (simp add: bathroom_node_def)
  ultimately show ?thesis
    using scanner_probes_in_order [of one_node_session] by (simp del: upto_rec_numeral)
qed

text \<open>
  The amended presence rule at the device on which only node 2 answers.
\<close>

theorem scanner_presence_witness:
  "(2::int) \<in> set ([2..10] @ [50..100])
   \<and> fst (async_get_nodes one_node_session) = Inr [bathroom_node]
   \<and> ((2::int) \<in> node_id ` set [bathroom_node] \<longleftrightarrow>
        presence_rule one_node_session 2 \<and> rh_comparable one_node_session 2)"
proof -
  have a: "(2::int) \<in> set ([2..10] @ [50..100])" by simp
  from scanner_presence [OF a nodes_one_node] a nodes_one_node show ?thesis by blast
qed

lemma found_other:
  "j \<noteq> i \<Longrightarrow> found (s\<lparr>device := (device s)(probe_request s i := r)\<rparr>) j = found s j"
  by (simp add: found_def probe_fst probe_request_def base_url_def)

lemma found_raises: "fst (probe i s) = Inl e \<Longrightarrow> found s i = []"
  by (simp add: found_def)

lemma filter_other_found: "filter (\<lambda>n. node_id n \<noteq> i) (found s j) = (if j = i then [] else found s j)"
  using found_cases [of s j] by auto

lemma filter_concat_found:
  assumes "found s i = []" and "\<And>j. j \<noteq> i \<Longrightarrow> found s' j = found s j"
  shows "filter (\<lambda>n. node_id n \<noteq> i) (concat (map (found s') xs)) = concat (map (found s) xs)"
proof (induction xs)
  case Nil
  show ?case by simp
next
  case (Cons x xs)
  show ?case
  proof (cases "x = i")
    case True
    with Cons.IH assms(1) show ?thesis by (simp add: filter_other_found)
  next
    case False
    with Cons.IH assms(2) [of x] show ?thesis by (simp add: filter_other_found)
  qed
qed

lemma concat_found_skip:
  "found s i = [] \<Longrightarrow>
     concat (map (found s) (filter (\<lambda>j. j \<noteq> i) xs)) = concat (map (found s) xs)"
  by (induction xs) auto

text \<open>
  C4: when the probe of candidate \<open>i\<close> raises (any exception of the \<^verbatim>\<open>try\<close> body), the
  scan still returns a list and every candidate has been probed. The list consists of
  what the probes of the remaining candidates found, each from its own reply, in scan
  order. It is also what the scan returns under any other reply \<open>r\<close> to candidate \<open>i\<close>,
  without the node of \<open>i\<close>: the fault removes the contribution of its own candidate and
  nothing else.
\<close>

theorem scanner_fault_isolation:
  assumes "fst (probe i s) = Inl e"
  shows "issued (snd (async_get_nodes s)) =
           issued s @ map (probe_request s) ([2..10] @ [50..100])
       \<and> fst (async_get_nodes s) =
           Inr (concat (map (found s) (filter (\<lambda>j. j \<noteq> i) ([2..10] @ [50..100]))))
       \<and> (\<exists>ns'. fst (async_get_nodes (s\<lparr>device := (device s)(probe_request s i := r)\<rparr>)) = Inr ns'
              \<and> fst (async_get_nodes s) = Inr (filter (\<lambda>n. node_id n \<noteq> i) ns'))"
proof -
  let ?s' = "s\<lparr>device := (device s)(probe_request s i := r)\<rparr>"
  have "filter (\<lambda>n. node_id n \<noteq> i) (concat (map (found ?s') ([2..10] @ [50..100]))) =
        concat (map (found s) ([2..10] @ [50..100]))"
    by (rule filter_concat_found [OF found_raises [OF assms]]) (rule found_other)
  moreover have "concat (map (found s) (filter (\<lambda>j. j \<noteq> i) ([2..10] @ [50..100]))) =
        concat (map (found s) ([2..10] @ [50..100]))"
    by (rule concat_found_skip [OF found_raises [OF assms]])
  ultimately show ?thesis
    by (simp add: async_get_nodes_eq del: upto_rec_numeral)
qed

text \<open>
  Isolation at the device on which only node 2 answers: the probe of candidate 3 times
  out, and the scan returns the node of candidate 2.
\<close>

theorem scanner_fault_isolation_witness:
  "fst (probe 3 one_node_session) = Inl TimeoutError
   \<and> issued (snd (async_get_nodes one_node_session)) =
         issued one_node_session @ map (probe_request one_node_session) ([2..10] @ [50..100])
   \<and> fst (async_get_nodes one_node_session) = Inr [bathroom_node]
   \<and> (\<exists>ns'. fst (async_get_nodes
                  (one_node_session\<lparr>device := (device one_node_session)
                     (probe_request one_node_session 3 :=
                        Inr \<lparr>status = 200, json_body = Inr bathroom_body\<rparr>)\<rparr>)) = Inr ns'
           \<and> fst (async_get_nodes one_node_session) = Inr (filter (\<lambda>n. node_id n \<noteq> 3) ns'))"
proof -
  have a: "fst (probe 3 one_node_session) = Inl TimeoutError"
    by (simp add: probe_fst probe_request_def one_node_session_def)
  have "concat (map (found one_node_session) (filter (\<lambda>j. j \<noteq> 3) ([2..10] @ [50..100]))) =
        [bathroom_node]"
    by (simp add: found_one_node)
  with scanner_fault_isolation [OF a] a show ?thesis by metis
qed






subsection \<open>State labels, commands, telemetry and configuration\<close>

lemma reverse_forward:
  "label \<in> set (map snd STATE_MAP) \<Longrightarrow>
     \<exists>code. STATE_REVERSE_MAP label = Some code \<and> map_of STATE_MAP code = Some label"
  by (auto simp: STATE_MAP_def STATE_REVERSE_MAP_def)

lemma friendly_state_known:
  assumes "map_of STATE_MAP code = Some label"
  shows "friendly_state (JStr code) = Inr (JStr label)"
proof -
  from assms have "(code, label) \<in> set STATE_MAP" by (rule map_of_SomeD)
  then have "code \<in> set (map fst STATE_MAP)" and "code \<noteq> []"
    by (auto simp: STATE_MAP_def)
  with assms show ?thesis by (simp add: friendly_state_def)
qed

lemma async_get_energy_info_no_raise: "async_get_energy_info s \<noteq> (Inl e, s')"
  by (cases "energy_info_body s") (auto simp: async_get_energy_info_def split: sum.splits)

lemma async_get_nodes_no_raise: "async_get_nodes s \<noteq> (Inl e, s')"
  by (simp add: async_get_nodes_eq del: upto_rec_numeral)

lemma async_get_data_state:
  assumes "device s \<lparr>url = ''http://'' @ host s @ ''/nodeinfoget'',
                      params = [(''node'', JInt 1)], timeout = 10\<rparr> = Inr response"
    and "status response = 200"
    and "json_body response = Inr (JObj kvs)"
    and "friendly_state (dict_get kvs ''state'' JNull) = Inr st"
  shows "\<exists>d. fst (async_get_data fetch_energy fetch_nodes s) = Inr d \<and> box_state d = st"
  unfolding async_get_data_def
  using assms
  by (simp add: session_get_eq base_url_def BOX_NODE_ID_def REQUEST_TIMEOUT_def
        raise_for_status_def py_get_def async_get_energy_info_no_raise
        async_get_nodes_no_raise split: prod.splits sum.splits)

text \<open>
  C9: every label of the table has a code in the reverse map that the forward map sends
  back to the label; \<^verbatim>\<open>async_set_ventilation_state\<close> sends exactly that code, and a state
  read whose body reports that code returns the label again, whatever is fetched besides.
\<close>

theorem state_label_round_trip:
  assumes "label \<in> set (map snd STATE_MAP)"
  shows "\<exists>code. STATE_REVERSE_MAP label = Some code \<and> map_of STATE_MAP code = Some label
         \<and> issued (snd (async_set_ventilation_state label s)) =
             issued s @ [\<lparr>url = ''http://'' @ host s @ ''/nodesetoperstate'',
                          params = [(''node'', JInt 1), (''value'', JStr code)],
                          timeout = 10\<rparr>]
         \<and> (\<forall>s' response kvs.
               device s' \<lparr>url = ''http://'' @ host s' @ ''/nodeinfoget'',
                          params = [(''node'', JInt 1)], timeout = 10\<rparr> = Inr response
               \<and> status response = 200 \<and> json_body response = Inr (JObj kvs)
               \<and> map_of kvs ''state'' = Some (JStr code)
               \<longrightarrow> (\<exists>d. fst (async_get_data fetch_energy fetch_nodes s') = Inr d
                        \<and> box_state d = JStr label))"
proof -
  from reverse_forward [OF assms] obtain code where
    c: "STATE_REVERSE_MAP label = Some code" "map_of STATE_MAP code = Some label" by blast
  have sent: "issued (snd (async_set_ventilation_state label s)) =
             issued s @ [\<lparr>url = ''http://'' @ host s @ ''/nodesetoperstate'',
                          params = [(''node'', JInt 1), (''value'', JStr code)],
                          timeout = 10\<rparr>]"
    using c(1)
    by (simp add: async_set_ventilation_state_def session_get_eq base_url_def BOX_NODE_ID_def
          REQUEST_TIMEOUT_def split: sum.splits)
  have read: "\<exists>d. fst (async_get_data fetch_energy fetch_nodes s') = Inr d \<and> box_state d = JStr label"
    if "device s' \<lparr>url = ''http://'' @ host s' @ ''/nodeinfoget'',
                          params = [(''node'', JInt 1)], timeout = 10\<rparr> = Inr response"
      "status response = 200" "json_body response = Inr (JObj kvs)"
      "map_of kvs ''state'' = Some (JStr code)" for s' response kvs
  proof (rule async_get_data_state [OF that(1,2,3)])
    from that(4) friendly_state_known [OF c(2)]
    show "friendly_state (dict_get kvs ''state'' JNull) = Inr (JStr label)"
      by (simp add: dict_get_def)
  qed
  from c sent read show ?thesis by blast
qed

text \<open>
  The round trip at the label \<^verbatim>\<open>Away\<close>, whose code is \<^verbatim>\<open>EMPT\<close>.
\<close>

theorem state_label_round_trip_witness:
  "''Away'' \<in> set (map snd STATE_MAP)
   \<and> STATE_REVERSE_MAP ''Away'' = Some ''EMPT''
   \<and> (\<exists>code. STATE_REVERSE_MAP ''Away'' = Some code \<and> map_of STATE_MAP code = Some ''Away''
         \<and> issued (snd (async_set_ventilation_state ''Away'' offline_session)) =
             issued offline_session @ [\<lparr>url = ''http://'' @ host offline_session @ ''/nodesetoperstate'',
                          params = [(''node'', JInt 1), (''value'', JStr code)],
                          timeout = 10\<rparr>]
         \<and> (\<forall>s' response kvs.
               device s' \<lparr>url = ''http://'' @ host s' @ ''/nodeinfoget'',
                          params = [(''node'', JInt 1)], timeout = 10\<rparr> = Inr response
               \<and> status response = 200 \<and> json_body response = Inr (JObj kvs)
               \<and> map_of kvs ''state'' = Some (JStr code)
               \<longrightarrow> (\<exists>d. fst (async_get_data True True s') = Inr d
                        \<and> box_state d = JStr ''Away'')))"
proof -
  have a: "''Away'' \<in> set (map snd STATE_MAP)" by (simp add: STATE_MAP_def)
  have b: "STATE_REVERSE_MAP ''Away'' = Some ''EMPT''"
    by (simp add: STATE_MAP_def STATE_REVERSE_MAP_def)
  from state_label_round_trip [OF a, of offline_session True True] a b show ?thesis by blast
qed

text \<open>
  C2, as stated, fails for \<^verbatim>\<open>async_set_ventilation_state\<close>: it has no \<^verbatim>\<open>try\<close> block, so
  a transport fault leaves the coroutine as it is, and a status of 500 leaves it as the
  exception of \<^verbatim>\<open>raise_for_status()\<close>.
\<close>

theorem state_write_raises_counterexample:
  "fst (async_set_ventilation_state ''Away'' offline_session) = Inl ClientError
   \<and> fst (async_set_ventilation_state ''Away'' error_500_session) = Inl ClientResponseError"
  by (simp add: async_set_ventilation_state_def session_get_eq offline_session_def
        error_500_session_def raise_for_status_def)

text \<open>
  C2, as amended: \<^verbatim>\<open>async_set_node_config\<close> and \<^verbatim>\<open>async_set_node_override\<close> always return
  a boolean, \<^verbatim>\<open>True\<close> exactly when the request was answered with status 200 and \<^verbatim>\<open>False\<close>
  on a transport fault, on any other status, and when \<^verbatim>\<open>int(value)\<close> raises.
  \<^verbatim>\<open>async_set_ventilation_state\<close> lets a transport fault through, raises on a status of
  400 or more (as its docstring says), and otherwise returns whether the status was 200.
\<close>

theorem write_failure_policy:
  "fst (async_set_node_config nid parameter v s) =
     Inr (case py_int v of
            Inl e \<Rightarrow> False
          | Inr k \<Rightarrow>
              (case device s
                 (if nid = 1 \<and> parameter \<in> box_level_params
                  then \<lparr>url = ''http://'' @ host s @ ''/boxconfigset'',
                        params = [(''mod'', JStr ''Energy''), (''para'', JStr parameter),
                                  (''value'', JInt k)], timeout = 10\<rparr>
                  else \<lparr>url = ''http://'' @ host s @ ''/nodeconfigset'',
                        params = [(''node'', JInt nid), (''para'', JStr parameter),
                                  (''value'', JInt k)], timeout = 10\<rparr>) of
                 Inl e \<Rightarrow> False
               | Inr response \<Rightarrow> status response = 200))
   \<and> fst (async_set_node_override nid percentage s) =
     Inr (case device s \<lparr>url = ''http://'' @ host s @ ''/nodesetoverrule'',
                          params = [(''node'', JInt nid), (''value'', JInt percentage)],
                          timeout = 10\<rparr> of
            Inl e \<Rightarrow> False
          | Inr response \<Rightarrow> status response = 200)
   \<and> fst (async_set_ventilation_state st s) =
     (case device s \<lparr>url = ''http://'' @ host s @ ''/nodesetoperstate'',
                      params = [(''node'', JInt 1),
                                (''value'', JStr (case STATE_REVERSE_MAP st of
                                                    None \<Rightarrow> st | Some c \<Rightarrow> c))],
                      timeout = 10\<rparr> of
        Inl e \<Rightarrow> Inl e
      | Inr response \<Rightarrow>
          if 400 \<le> status response then Inl ClientResponseError
          else Inr (status response = 200))"
proof (intro conjI)
  show "fst (async_set_node_config nid parameter v s) =
     Inr (case py_int v of
            Inl e \<Rightarrow> False
          | Inr k \<Rightarrow>
              (case device s
                 (if nid = 1 \<and> parameter \<in> box_level_params
                  then \<lparr>url = ''http://'' @ host s @ ''/boxconfigset'',
                        params = [(''mod'', JStr ''Energy''), (''para'', JStr parameter),
                                  (''value'', JInt k)], timeout = 10\<rparr>
                  else \<lparr>url = ''http://'' @ host s @ ''/nodeconfigset'',
                        params = [(''node'', JInt nid), (''para'', JStr parameter),
                                  (''value'', JInt k)], timeout = 10\<rparr>) of
                 Inl e \<Rightarrow> False
               | Inr response \<Rightarrow> status response = 200))"
    by (cases "nid = 1 \<and> parameter \<in> box_level_params")
       (auto simp add: async_set_node_config_def set_node_config_body_def session_get_eq
          base_url_def REQUEST_TIMEOUT_def split: sum.splits)
next
  show "fst (async_set_node_override nid percentage s) =
     Inr (case device s \<lparr>url = ''http://'' @ host s @ ''/nodesetoverrule'',
                          params = [(''node'', JInt nid), (''value'', JInt percentage)],
                          timeout = 10\<rparr> of
            Inl e \<Rightarrow> False
          | Inr response \<Rightarrow> status response = 200)"
    by (simp add: async_set_node_override_def set_node_override_body_def session_get_eq
          base_url_def REQUEST_TIMEOUT_def split: sum.splits)
next
  show "fst (async_set_ventilation_state st s) =
     (case device s \<lparr>url = ''http://'' @ host s @ ''/nodesetoperstate'',
                      params = [(''node'', JInt 1),
                                (''value'', JStr (case STATE_REVERSE_MAP st of
                                                    None \<Rightarrow> st | Some c \<Rightarrow> c))],
                      timeout = 10\<rparr> of
        Inl e \<Rightarrow> Inl e
      | Inr response \<Rightarrow>
          if 400 \<le> status response then Inl ClientResponseError
          else Inr (status response = 200))"
    by (simp add: async_set_ventilation_state_def session_get_eq base_url_def
          BOX_NODE_ID_def REQUEST_TIMEOUT_def raise_for_status_def split: sum.splits)
qed

subsection \<open>Rounding to a double\<close>

lemma bitlen_eqI: "2 ^ n \<le> a \<Longrightarrow> a < 2 ^ Suc n \<Longrightarrow> bitlen a = int n + 1"
proof (rule antisym)
  assume "a < 2 ^ Suc n"
  then show "bitlen a \<le> int n + 1"
    by (simp add: bitlen_le_iff_power nat_add_distrib)
next
  assume "2 ^ n \<le> a"
  then show "int n + 1 \<le> bitlen a"
    by (simp add: bitlen_ge_iff_power nat_add_distrib)
qed

lemma floor_divide_rat_numeral:
  "\<lfloor>numeral a / numeral b :: rat\<rfloor> = numeral a div numeral b"
  by (metis floor_divide_of_int_eq of_int_numeral)

lemma round_half_even_quotient:
  assumes "0 < b"
  shows "round_half_even (of_int a / of_int b) =
     (if 2 * (a mod b) < b then a div b
      else if b < 2 * (a mod b) then a div b + 1
      else if even (a div b) then a div b else a div b + 1)"
proof -
  have f: "\<lfloor>(of_int a :: rat) / of_int b\<rfloor> = a div b"
    by (simp add: floor_divide_of_int_eq)
  have "(of_int a :: rat) = of_int (a div b) * of_int b + of_int (a mod b)"
    by (metis of_int_add of_int_mult div_mult_mod_eq)
  with assms have d: "(of_int a :: rat) / of_int b - of_int (a div b) = of_int (a mod b) / of_int b"
    by (simp add: field_simps)
  have lt: "(of_int (a mod b) / of_int b < (1::rat) / 2) = (2 * (a mod b) < b)"
  proof -
    have "(of_int (a mod b) / of_int b < (1::rat) / 2) =
          ((of_int (2 * (a mod b)) :: rat) < of_int b)"
      using assms by (simp add: field_simps)
    then show ?thesis by (simp only: of_int_less_iff)
  qed
  have gt: "((1::rat) / 2 < of_int (a mod b) / of_int b) = (b < 2 * (a mod b))"
  proof -
    have "((1::rat) / 2 < of_int (a mod b) / of_int b) =
          ((of_int b :: rat) < of_int (2 * (a mod b)))"
      using assms by (simp add: field_simps)
    then show ?thesis by (simp only: of_int_less_iff)
  qed
  show ?thesis
    unfolding round_half_even_def Let_def f d lt gt ..
qed

text \<open>
  Evaluating \<open>float_round\<close> at a positive quotient, once the number \<open>k\<close> of bits to round
  away is known.
\<close>

lemma float_round_quotient:
  assumes "0 < a" and "0 < b"
    and "2 ^ (k + 52) \<le> a * 2 ^ 1074 div b" and "a * 2 ^ 1074 div b < 2 ^ Suc (k + 52)"
    and "round_half_even (of_int (a * 2 ^ 1074) / of_int (b * 2 ^ k)) = m"
  shows "float_round (of_int a / of_int b) =
           (if 2 ^ 2098 \<le> m * 2 ^ k then PosInf
            else Finite (of_int (m * 2 ^ k) / 2 ^ 1074))"
proof -
  let ?x = "of_int a / of_int b :: rat"
  from assms(1,2) have pos: "0 < ?x" by simp
  then have ab: "\<bar>?x\<bar> = ?x" and sg: "sgn ?x = 1"
    by (simp_all only: abs_of_pos sgn_pos)
  have y: "?x * 2 ^ 1074 = of_int (a * 2 ^ 1074) / of_int b" by simp
  have fl: "\<lfloor>?x * 2 ^ 1074\<rfloor> = a * 2 ^ 1074 div b"
    unfolding y by (rule floor_divide_of_int_eq)
  from assms(3,4) have "bitlen (a * 2 ^ 1074 div b) = int (k + 52) + 1"
    by (rule bitlen_eqI)
  then have k: "nat (bitlen (a * 2 ^ 1074 div b) - 53) = k" by simp
  have q: "?x * 2 ^ 1074 / 2 ^ k = of_int (a * 2 ^ 1074) / of_int (b * 2 ^ k)"
    by simp
  show ?thesis
    unfolding float_round_def Let_def ab sg fl k q assms(5)
    using pos by (simp only: if_True mult_1)
qed

lemma float_round_43_2: "float_round (43 / 2) = Finite (43 / 2)"
proof -
  have "float_round (of_int 43 / of_int 2) =
          (if (2::int) ^ 2098 \<le> 6051711999279104 * 2 ^ 1026 then PosInf
           else Finite (of_int (6051711999279104 * 2 ^ 1026) / 2 ^ 1074))"
    by (rule float_round_quotient)
       (simp_all add: round_half_even_def Let_def floor_divide_rat_numeral)
  then show ?thesis by simp
qed

lemma float_round_1_10:
  "float_round (1 / 10) = Finite (3602879701896397 / 36028797018963968)"
proof -
  have "float_round (of_int 1 / of_int 10) =
          (if (2::int) ^ 2098 \<le> 7205759403792794 * 2 ^ 1018 then PosInf
           else Finite (of_int (7205759403792794 * 2 ^ 1018) / 2 ^ 1074))"
    by (rule float_round_quotient)
       (simp_all add: round_half_even_def Let_def floor_divide_rat_numeral)
  then show ?thesis by simp
qed

lemma round_half_even_error: "\<bar>of_int (round_half_even x) - x\<bar> \<le> 1 / 2"
proof -
  define f where "f = \<lfloor>x\<rfloor>"
  define d where "d = x - of_int f"
  have "0 \<le> d" "d < 1" using floor_correct [of x] by (simp_all add: d_def f_def)
  moreover have "x = of_int f + d" by (simp add: d_def)
  ultimately show ?thesis
    unfolding round_half_even_def Let_def f_def [symmetric] d_def [symmetric]
    by (auto simp: abs_if)
qed

text \<open>
  A finite result of \<open>float_round\<close> is within half a unit in the last place of its
  argument: the relative error is at most \<^verbatim>\<open>2**-53\<close>, or the absolute error at most
  \<^verbatim>\<open>2**-1075\<close> in the subnormal range.
\<close>

lemma float_round_error:
  assumes "float_round x = Finite r"
  shows "\<bar>r - x\<bar> \<le> max (\<bar>x\<bar> / 2 ^ 53) (1 / 2 ^ 1075)"
proof -
  define P :: rat where "P = 2 ^ 1074"
  define y where "y = \<bar>x\<bar> * P"
  define k where "k = nat (bitlen \<lfloor>y\<rfloor> - 53)"
  define Q :: rat where "Q = 2 ^ k"
  define m where "m = round_half_even (y / Q)"
  have P: "0 < P" and Q: "0 < Q" by (simp_all add: P_def Q_def)
  have fr: "float_round x =
      (if 2 ^ 2098 \<le> m * 2 ^ k then (if 0 < x then PosInf else NegInf)
       else Finite (sgn x * of_int (m * 2 ^ k) / P))"
    unfolding float_round_def Let_def m_def Q_def k_def y_def P_def ..
  have r: "r = sgn x * (of_int m * Q) / P"
  proof (cases "2 ^ 2098 \<le> m * 2 ^ k")
    case True
    with assms fr show ?thesis
      by (cases "0 < x") (simp_all only: if_True if_False pyfloat.distinct)
  next
    case False
    with assms fr have "r = sgn x * of_int (m * 2 ^ k) / P"
      by (simp only: if_False pyfloat.inject)
    then show ?thesis by (simp only: of_int_mult of_int_power of_int_numeral Q_def)
  qed
  have x: "x = sgn x * y / P"
    using P by (simp add: y_def mult_sgn_abs)
  have "r - x = sgn x * ((of_int m - y / Q) * Q) / P"
    using P Q by (subst x, subst r) (simp add: field_simps)
  then have "\<bar>r - x\<bar> = \<bar>sgn x\<bar> * (\<bar>of_int m - y / Q\<bar> * Q) / P"
    using P Q by (simp only: abs_mult abs_divide abs_of_pos)
  also have "\<dots> \<le> 1 * (1 / 2 * Q) / P"
  proof -
    have "\<bar>sgn x\<bar> \<le> 1" by (simp add: abs_sgn_eq)
    moreover have "\<bar>of_int m - y / Q\<bar> \<le> 1 / 2"
      unfolding m_def by (rule round_half_even_error)
    ultimately have "\<bar>sgn x\<bar> * (\<bar>of_int m - y / Q\<bar> * Q) \<le> 1 * (1 / 2 * Q)"
      using Q by (intro mult_mono mult_right_mono) simp_all
    with P show ?thesis by (simp only: divide_right_mono less_imp_le)
  qed
  finally have bound: "\<bar>r - x\<bar> \<le> Q / (2 * P)" by simp
  show ?thesis
  proof (cases "k = 0")
    case True
    then have "Q / (2 * P) = 1 / 2 ^ 1075" by (simp add: Q_def P_def)
    with bound show ?thesis by (simp only: le_max_iff_disj) simp
  next
    case False
    then have bl: "bitlen \<lfloor>y\<rfloor> = int k + 53" by (simp add: k_def)
    then have "0 < \<lfloor>y\<rfloor>" using bitlen_eq_zero_iff [of "\<lfloor>y\<rfloor>"] by simp
    from bitlen_bounds [OF this] bl have "2 ^ (k + 52) \<le> \<lfloor>y\<rfloor>"
      by (simp add: nat_add_distrib ac_simps)
    then have "(of_int (2 ^ (k + 52)) :: rat) \<le> of_int \<lfloor>y\<rfloor>"
      by (simp only: of_int_le_iff)
    also have "\<dots> \<le> y" by (rule of_int_floor_le)
    finally have "Q * 2 ^ 52 \<le> \<bar>x\<bar> * P" by (simp add: Q_def power_add y_def)
    with P have "Q / (2 * P) \<le> \<bar>x\<bar> / 2 ^ 53" by (simp add: field_simps)
    with bound show ?thesis by (simp only: le_max_iff_disj) simp
  qed
qed

subsection \<open>Energy temperatures\<close>

lemma bind_exn_eq_Inr: "bind_exn m f = Inr y \<longleftrightarrow> (\<exists>x. m = Inr x \<and> f x = Inr y)"
  by (cases m) simp_all

lemma temp_field_JObj:
  "temp_field (JObj kvs) key =
     (if truthy (dict_get kvs key JNull) then py_truediv10 (dict_get kvs key JNull)
      else Inr JNull)"
  by (simp add: temp_field_def py_get_def)

lemma temp_field_not_dict:
  "temp_field JNull key = Inl AttributeError"
  "temp_field (JBool b) key = Inl AttributeError"
  "temp_field (JInt i) key = Inl AttributeError"
  "temp_field (JFloat q) key = Inl AttributeError"
  "temp_field (JStr t) key = Inl AttributeError"
  "temp_field (JArr xs) key = Inl AttributeError"
  by (simp_all add: temp_field_def py_get_def)

lemma py_truediv10_Inr:
  assumes "py_truediv10 raw = Inr v"
  shows "\<exists>x. num_val raw = Some x \<and> v = JFloat (float_div10 x)"
proof (cases raw)
  case (JBool b)
  with assms show ?thesis
    by (auto simp: int_truediv10_def split: pyfloat.splits if_splits)
next
  case (JInt n)
  with assms show ?thesis
    by (auto simp: int_truediv10_def split: pyfloat.splits)
qed (use assms in simp_all)

lemma float_div10_error:
  "float_div10 (Finite q) = Finite r \<Longrightarrow>
     \<bar>r - q / 10\<bar> \<le> max (\<bar>q / 10\<bar> / 2 ^ 53) (1 / 2 ^ 1075)"
  by (simp only: float_div10.simps float_round_error)

lemma temp_field_Inr:
  assumes "temp_field (JObj kvs) key = Inr v"
  shows "(\<not> truthy (dict_get kvs key JNull) \<longrightarrow> v = JNull) \<and>
         (truthy (dict_get kvs key JNull) \<longrightarrow>
            (\<exists>x. num_val (dict_get kvs key JNull) = Some x
                 \<and> v = JFloat (float_div10 x)
                 \<and> (\<forall>q r. x = Finite q \<and> float_div10 x = Finite r \<longrightarrow>
                        \<bar>r - q / 10\<bar> \<le> max (\<bar>q / 10\<bar> / 2 ^ 53) (1 / 2 ^ 1075))))"
proof (cases "truthy (dict_get kvs key JNull)")
  case False
  with assms show ?thesis by (simp add: temp_field_JObj)
next
  case True
  with assms have "py_truediv10 (dict_get kvs key JNull) = Inr v"
    by (simp add: temp_field_JObj)
  from py_truediv10_Inr [OF this] obtain x where
    "num_val (dict_get kvs key JNull) = Some x" "v = JFloat (float_div10 x)" by blast
  moreover have "\<forall>q r. x = Finite q \<and> float_div10 x = Finite r \<longrightarrow>
                        \<bar>r - q / 10\<bar> \<le> max (\<bar>q / 10\<bar> / 2 ^ 53) (1 / 2 ^ 1075)"
    using float_div10_error by blast
  ultimately show ?thesis using True by blast
qed

lemma decode_energy_Inr:
  assumes "decode_energy data = Inr info"
  shows "\<exists>kvs. py_get_default data ''EnergyInfo'' (JObj []) = Inr (JObj kvs)
           \<and> temp_field (JObj kvs) ''TempODA'' = Inr (temp_oda info)
           \<and> temp_field (JObj kvs) ''TempSUP'' = Inr (temp_sup info)
           \<and> temp_field (JObj kvs) ''TempETA'' = Inr (temp_eta info)
           \<and> temp_field (JObj kvs) ''TempEHA'' = Inr (temp_eha info)"
proof -
  from assms obtain ed where ed: "py_get_default data ''EnergyInfo'' (JObj []) = Inr ed"
    and t: "temp_field ed ''TempODA'' = Inr (temp_oda info)"
      "temp_field ed ''TempSUP'' = Inr (temp_sup info)"
      "temp_field ed ''TempETA'' = Inr (temp_eta info)"
      "temp_field ed ''TempEHA'' = Inr (temp_eha info)"
    unfolding decode_energy_def bind_exn_eq_Inr by auto
  from t(1) obtain kvs where "ed = JObj kvs"
    by (cases ed) (simp_all add: temp_field_not_dict)
  with ed t show ?thesis by blast
qed

lemma energy_info_body_fst:
  "fst (energy_info_body s) =
     (case device s \<lparr>url = ''http://'' @ host s @ ''/boxinfoget'', params = [], timeout = 10\<rparr> of
        Inl e \<Rightarrow> Inl e
      | Inr response \<Rightarrow>
          bind_exn (raise_for_status response) (\<lambda>_.
          bind_exn (json_body response) decode_energy))"
  by (simp add: energy_info_body_def session_get_eq base_url_def REQUEST_TIMEOUT_def
        split: sum.splits)

lemma async_get_energy_info_fst:
  "fst (async_get_energy_info s) =
     (case fst (energy_info_body s) of Inl e \<Rightarrow> Inr None | Inr info \<Rightarrow> Inr (Some info))"
  by (cases "energy_info_body s") (simp add: async_get_energy_info_def split: sum.splits)

text \<open>
  C8: in every result of \<^verbatim>\<open>async_get_energy_info\<close>, each of the four temperature fields
  follows the raw value under its key in the \<^verbatim>\<open>EnergyInfo\<close> section: absent when the raw
  value is missing or falsy (so never zero), and otherwise the raw number divided by 10
  as Python divides: the quotient rounded to the nearest double, which is within
  \<^verbatim>\<open>2**-53\<close> of it in relative terms (\<^verbatim>\<open>2**-1075\<close> absolutely for a subnormal result); an
  infinity or NaN divided by 10 is itself.
\<close>

theorem energy_temperature_decoding:
  assumes "fst (async_get_energy_info s) = Inr (Some info)"
  shows "\<exists>response data kvs.
           device s \<lparr>url = ''http://'' @ host s @ ''/boxinfoget'', params = [],
                      timeout = 10\<rparr> = Inr response
         \<and> json_body response = Inr data
         \<and> py_get_default data ''EnergyInfo'' (JObj []) = Inr (JObj kvs)
         \<and> (\<forall>(key, field) \<in> set [(''TempODA'', temp_oda), (''TempSUP'', temp_sup),
                                    (''TempETA'', temp_eta), (''TempEHA'', temp_eha)].
               (\<not> truthy (dict_get kvs key JNull) \<longrightarrow> field info = JNull) \<and>
               (truthy (dict_get kvs key JNull) \<longrightarrow>
                  (\<exists>x. num_val (dict_get kvs key JNull) = Some x
                       \<and> field info = JFloat (float_div10 x)
                       \<and> (\<forall>q r. x = Finite q \<and> float_div10 x = Finite r \<longrightarrow>
                              \<bar>r - q / 10\<bar> \<le> max (\<bar>q / 10\<bar> / 2 ^ 53) (1 / 2 ^ 1075)))))"
proof -
  from assms have b: "fst (energy_info_body s) = Inr info"
    by (simp add: async_get_energy_info_fst split: sum.splits)
  then obtain response where
    r: "device s \<lparr>url = ''http://'' @ host s @ ''/boxinfoget'', params = [],
                     timeout = 10\<rparr> = Inr response"
    by (simp add: energy_info_body_fst split: sum.splits)
  with b obtain data where d: "json_body response = Inr data"
    and de: "decode_energy data = Inr info"
    by (auto simp: energy_info_body_fst bind_exn_eq_Inr)
  from decode_energy_Inr [OF de] obtain kvs where
    k: "py_get_default data ''EnergyInfo'' (JObj []) = Inr (JObj kvs)"
    and t: "temp_field (JObj kvs) ''TempODA'' = Inr (temp_oda info)"
      "temp_field (JObj kvs) ''TempSUP'' = Inr (temp_sup info)"
      "temp_field (JObj kvs) ''TempETA'' = Inr (temp_eta info)"
      "temp_field (JObj kvs) ''TempEHA'' = Inr (temp_eha info)"
    by blast
  from t [THEN temp_field_Inr]
  have "\<forall>(key, field) \<in> set [(''TempODA'', temp_oda), (''TempSUP'', temp_sup),
                                    (''TempETA'', temp_eta), (''TempEHA'', temp_eha)].
               (\<not> truthy (dict_get kvs key JNull) \<longrightarrow> field info = JNull) \<and>
               (truthy (dict_get kvs key JNull) \<longrightarrow>
                  (\<exists>x. num_val (dict_get kvs key JNull) = Some x
                       \<and> field info = JFloat (float_div10 x)
                       \<and> (\<forall>q r. x = Finite q \<and> float_div10 x = Finite r \<longrightarrow>
                              \<bar>r - q / 10\<bar> \<le> max (\<bar>q / 10\<bar> / 2 ^ 53) (1 / 2 ^ 1075))))"
    by (simp only: list.set ball_simps prod.case)
  with r d k show ?thesis by blast
qed

lemma energy_session_reading:
  "fst (async_get_energy_info energy_session) = Inr (Some energy_reading)"
  by (simp add: async_get_energy_info_fst energy_info_body_fst energy_session_def
        raise_for_status_def decode_energy_def temp_field_JObj py_get_def dict_get_def
        int_truediv10_def float_round_43_2 energy_reading_def)

text \<open>
  The temperature rule at a device that reports \<^verbatim>\<open>TempODA\<close> 215 and \<^verbatim>\<open>TempSUP\<close> 0: the
  outdoor temperature decodes to 21.5, the supply temperature is absent.
\<close>

theorem energy_temperature_decoding_witness:
  "fst (async_get_energy_info energy_session) = Inr (Some energy_reading)
   \<and> temp_oda energy_reading = JFloat (Finite (43 / 2)) \<and> temp_sup energy_reading = JNull
   \<and> (\<exists>response data kvs.
           device energy_session \<lparr>url = ''http://'' @ host energy_session @ ''/boxinfoget'',
                                   params = [], timeout = 10\<rparr> = Inr response
         \<and> json_body response = Inr data
         \<and> py_get_default data ''EnergyInfo'' (JObj []) = Inr (JObj kvs)
         \<and> (\<forall>(key, field) \<in> set [(''TempODA'', temp_oda), (''TempSUP'', temp_sup),
                                    (''TempETA'', temp_eta), (''TempEHA'', temp_eha)].
               (\<not> truthy (dict_get kvs key JNull) \<longrightarrow> field energy_reading = JNull) \<and>
               (truthy (dict_get kvs key JNull) \<longrightarrow>
                  (\<exists>x. num_val (dict_get kvs key JNull) = Some x
                       \<and> field energy_reading = JFloat (float_div10 x)
                       \<and> (\<forall>q r. x = Finite q \<and> float_div10 x = Finite r \<longrightarrow>
                              \<bar>r - q / 10\<bar> \<le> max (\<bar>q / 10\<bar> / 2 ^ 53) (1 / 2 ^ 1075))))))"
proof -
  have "temp_oda energy_reading = JFloat (Finite (43 / 2))"
    and "temp_sup energy_reading = JNull"
    by (simp_all add: energy_reading_def)
  with energy_temperature_decoding [OF energy_session_reading] energy_session_reading
  show ?thesis by blast
qed

text \<open>
  Two readings where the rounding and the range of a double show: a raw value of 1
  decodes to the double nearest to one tenth, and a raw integer whose tenth is too large
  for a float makes the division raise \<^verbatim>\<open>OverflowError\<close>, so that the operation returns
  \<^verbatim>\<open>None\<close> and no field is decoded.
\<close>

lemma int_truediv10_huge: "int_truediv10 huge_raw = Inl OverflowError"
proof -
  have "float_round (of_int (10 ^ 309) / of_int 1) =
          (if (2::int) ^ 2098 \<le> round_half_even (of_int (10 ^ 309 * 2 ^ 1074) /
                                            of_int (1 * 2 ^ 2048)) * 2 ^ 2048
           then PosInf
           else Finite (of_int (round_half_even (of_int (10 ^ 309 * 2 ^ 1074) /
                                                  of_int (1 * 2 ^ 2048)) * 2 ^ 2048) /
                        2 ^ 1074))"
    by (rule float_round_quotient [OF _ _ _ _ refl]) simp_all
  then have "float_round (of_int (10 ^ 309) / of_int 1) = PosInf"
    by (simp add: round_half_even_def Let_def floor_divide_rat_numeral)
  moreover have "(of_int huge_raw :: rat) / 10 = of_int (10 ^ 309) / of_int 1"
    by (simp add: huge_raw_def)
  ultimately show ?thesis
    unfolding int_truediv10_def by (simp only: pyfloat.case)
qed

lemma temp_field_huge:
  "temp_field (JObj [(''TempODA'', JInt huge_raw)]) ''TempODA'' = Inl OverflowError"
proof -
  have "huge_raw \<noteq> 0" by (simp add: huge_raw_def)
  then show ?thesis
    by (simp add: temp_field_JObj dict_get_def int_truediv10_huge)
qed

lemma temp_field_one:
  "temp_field (JObj [(''TempODA'', JInt 1)]) ''TempODA'' =
     Inr (JFloat (Finite (3602879701896397 / 36028797018963968)))"
  by (simp add: temp_field_JObj dict_get_def int_truediv10_def float_round_1_10)

subsection \<open>The primary unit's configuration\<close>

lemma node_config_body_primary:
  "fst (node_config_body 1 s) =
     (case device s \<lparr>url = ''http://'' @ host s @ ''/nodeconfigget'',
                      params = [(''node'', JInt 1)], timeout = 10\<rparr> of
        Inl e \<Rightarrow> Inl e
      | Inr response \<Rightarrow>
          bind_exn (if status response = 200 then json_body response else Inr (JObj []))
            (\<lambda>node_data.
               case device s \<lparr>url = ''http://'' @ host s @ ''/boxconfigget'', params = [],
                                timeout = 10\<rparr> of
                 Inl e \<Rightarrow> Inl e
               | Inr box_response \<Rightarrow>
                   bind_exn
                     (if status box_response = 200
                      then bind_exn (json_body box_response) (\<lambda>box_data.
                             py_get_default box_data ''Energy'' (JObj []))
                      else Inr (JObj []))
                     (\<lambda>energy_data.
                        bind_exn (merge_config 1 node_data energy_data) (\<lambda>c.
                          Inr (Some c)))))"
  by (simp add: node_config_body_def session_get_eq base_url_def REQUEST_TIMEOUT_def
        bind_exn_def split: sum.splits)

lemma async_get_node_config_fst:
  "fst (async_get_node_config nid s) =
     (case fst (node_config_body nid s) of Inl e \<Rightarrow> Inr None | Inr r \<Rightarrow> Inr r)"
  by (cases "node_config_body nid s") (simp add: async_get_node_config_def split: sum.splits)

lemma create_param_projr:
  "Inr (projr (create_param (JObj kvs) key)) = create_param (JObj kvs) key"
  by (simp split: option.splits json.splits)

lemma create_param_empty: "create_param (JObj []) key = Inr None"
  by simp

lemma bind_create_param:
  "bind_exn (create_param (JObj kvs) key) f = f (projr (create_param (JObj kvs) key))"
  by (simp split: option.splits json.splits)

lemma merge_config_JObj:
  "merge_config 1 (JObj nd) (JObj en) = Inr (merged_config nd en)"
  unfolding merge_config_def merged_config_def
  by (simp only: bind_create_param py_get_def py_get_default.simps bind_exn_Inr)

text \<open>
  C1, as amended: for node 1, when either sub-call faults (its request raises, or its
  status is 200 and its body cannot be decoded), the operation returns \<^verbatim>\<open>None\<close>. A status
  other than 200 is no fault: when both requests are answered, and each body that comes
  with status 200 is a dict (with a dict as its \<^verbatim>\<open>Energy\<close> section, for the box-level call),
  the operation returns a configuration whose node-level slots are read from the
  node-level body and whose box-level slots are read from the \<^verbatim>\<open>Energy\<close> section, where a
  call with another status contributes the empty section: all of its slots are absent,
  while the slots of the other call are still returned.
\<close>

theorem primary_config_fault_absent:
  "((call_faults (device s \<lparr>url = ''http://'' @ host s @ ''/nodeconfigget'',
            params = [(''node'', JInt 1)], timeout = 10\<rparr>)
      \<or> call_faults (device s \<lparr>url = ''http://'' @ host s @ ''/boxconfigget'',
            params = [], timeout = 10\<rparr>))
      \<longrightarrow> fst (async_get_node_config 1 s) = Inr None)
   \<and> (\<forall>r1 r2 nd en.
         device s \<lparr>url = ''http://'' @ host s @ ''/nodeconfigget'',
            params = [(''node'', JInt 1)], timeout = 10\<rparr> = Inr r1
         \<and> device s \<lparr>url = ''http://'' @ host s @ ''/boxconfigget'',
            params = [], timeout = 10\<rparr> = Inr r2
         \<and> (if status r1 = 200 then json_body r1 = Inr (JObj nd) else nd = [])
         \<and> (if status r2 = 200
              then \<exists>box. json_body r2 = Inr (JObj box)
                         \<and> dict_get box ''Energy'' (JObj []) = JObj en
              else en = [])
         \<longrightarrow> (\<exists>c. fst (async_get_node_config 1 s) = Inr (Some c)
                \<and> cfg_node_id c = 1
                \<and> create_param (JObj nd) ''CO2Setpoint'' = Inr (co2_setpoint c)
                \<and> create_param (JObj nd) ''RHSetpoint'' = Inr (rh_setpoint c)
                \<and> create_param (JObj nd) ''Manual1'' = Inr (manual1 c)
                \<and> create_param (JObj nd) ''Manual2'' = Inr (manual2 c)
                \<and> create_param (JObj nd) ''Manual3'' = Inr (manual3 c)
                \<and> create_param (JObj nd) ''ManualTimeout'' = Inr (manual_timeout c)
                \<and> create_param (JObj nd) ''TempDependent'' = Inr (temp_dependent c)
                \<and> create_param (JObj nd) ''RHDelta'' = Inr (rh_delta c)
                \<and> create_param (JObj nd) ''SensorVisuLevel'' = Inr (sensor_visu_level c)
                \<and> create_param (JObj nd) ''AutoMin'' = Inr (auto_min c)
                \<and> create_param (JObj nd) ''AutoMax'' = Inr (auto_max c)
                \<and> create_param (JObj nd) ''Capacity'' = Inr (capacity c)
                \<and> cfg_location c = dict_get nd ''Location'' JNull
                \<and> create_param (JObj en) ''BypassMode'' = Inr (bypass_mode c)
                \<and> create_param (JObj en) ''BypassAdaptive'' = Inr (bypass_adaptive c)
                \<and> create_param (JObj en) ''ComfortTemperature'' = Inr (comfort_temperature c)
                \<and> create_param (JObj en) ''FilterReset'' = Inr (filter_reset c)
                \<and> create_param (JObj en) ''CalibPinMax'' = Inr (calib_pin_max c)
                \<and> create_param (JObj en) ''CalibPoutMax'' = Inr (calib_pout_max c)
                \<and> create_param (JObj en) ''CalibQout'' = Inr (calib_qout c)
                \<and> create_param (JObj en) ''ProgramModeZone1'' = Inr (program_mode_zone1 c)
                \<and> create_param (JObj en) ''ProgramModeZone2'' = Inr (program_mode_zone2 c)
                \<and> (status r1 \<noteq> 200 \<longrightarrow>
                     co2_setpoint c = None \<and> rh_setpoint c = None \<and> manual1 c = None \<and> manual2 c = None \<and> manual3 c = None \<and> manual_timeout c = None \<and> temp_dependent c = None \<and> rh_delta c = None \<and> sensor_visu_level c = None \<and> auto_min c = None \<and> auto_max c = None \<and> capacity c = None \<and> cfg_location c = JNull)
                \<and> (status r2 \<noteq> 200 \<longrightarrow>
                     bypass_mode c = None \<and> bypass_adaptive c = None \<and> comfort_temperature c = None \<and> filter_reset c = None \<and> calib_pin_max c = None \<and> calib_pout_max c = None \<and> calib_qout c = None \<and> program_mode_zone1 c = None \<and> program_mode_zone2 c = None)))"
proof (intro conjI allI impI)
  assume "(call_faults (device s \<lparr>url = ''http://'' @ host s @ ''/nodeconfigget'',
            params = [(''node'', JInt 1)], timeout = 10\<rparr>)
      \<or> call_faults (device s \<lparr>url = ''http://'' @ host s @ ''/boxconfigget'',
            params = [], timeout = 10\<rparr>))"
  then show "fst (async_get_node_config 1 s) = Inr None"
    by (auto simp: async_get_node_config_fst node_config_body_primary call_faults_def
          bind_exn_def isl_def split: sum.splits)
next
  fix r1 r2 nd en
  assume h: "device s \<lparr>url = ''http://'' @ host s @ ''/nodeconfigget'',
            params = [(''node'', JInt 1)], timeout = 10\<rparr> = Inr r1
         \<and> device s \<lparr>url = ''http://'' @ host s @ ''/boxconfigget'',
            params = [], timeout = 10\<rparr> = Inr r2
         \<and> (if status r1 = 200 then json_body r1 = Inr (JObj nd) else nd = [])
         \<and> (if status r2 = 200
              then \<exists>box. json_body r2 = Inr (JObj box)
                         \<and> dict_get box ''Energy'' (JObj []) = JObj en
              else en = [])"
  then have nd: "(if status r1 = 200 then json_body r1 else Inr (JObj [])) = Inr (JObj nd)"
    by (simp split: if_splits)
  from h have en: "(if status r2 = 200
                    then bind_exn (json_body r2) (\<lambda>box_data.
                           py_get_default box_data ''Energy'' (JObj []))
                    else Inr (JObj [])) = Inr (JObj en)"
    by (auto split: if_splits)
  from h have n1: "status r1 \<noteq> 200 \<Longrightarrow> nd = []" and n2: "status r2 \<noteq> 200 \<Longrightarrow> en = []"
    by (simp_all split: if_splits)
  from h have "fst (async_get_node_config 1 s) = Inr (Some (merged_config nd en))"
    by (simp add: async_get_node_config_fst node_config_body_primary nd en merge_config_JObj)
  then show "\<exists>c. fst (async_get_node_config 1 s) = Inr (Some c)
                \<and> cfg_node_id c = 1
                \<and> create_param (JObj nd) ''CO2Setpoint'' = Inr (co2_setpoint c)
                \<and> create_param (JObj nd) ''RHSetpoint'' = Inr (rh_setpoint c)
                \<and> create_param (JObj nd) ''Manual1'' = Inr (manual1 c)
                \<and> create_param (JObj nd) ''Manual2'' = Inr (manual2 c)
                \<and> create_param (JObj nd) ''Manual3'' = Inr (manual3 c)
                \<and> create_param (JObj nd) ''ManualTimeout'' = Inr (manual_timeout c)
                \<and> create_param (JObj nd) ''TempDependent'' = Inr (temp_dependent c)
                \<and> create_param (JObj nd) ''RHDelta'' = Inr (rh_delta c)
                \<and> create_param (JObj nd) ''SensorVisuLevel'' = Inr (sensor_visu_level c)
                \<and> create_param (JObj nd) ''AutoMin'' = Inr (auto_min c)
                \<and> create_param (JObj nd) ''AutoMax'' = Inr (auto_max c)
                \<and> create_param (JObj nd) ''Capacity'' = Inr (capacity c)
                \<and> cfg_location c = dict_get nd ''Location'' JNull
                \<and> create_param (JObj en) ''BypassMode'' = Inr (bypass_mode c)
                \<and> create_param (JObj en) ''BypassAdaptive'' = Inr (bypass_adaptive c)
                \<and> create_param (JObj en) ''ComfortTemperature'' = Inr (comfort_temperature c)
                \<and> create_param (JObj en) ''FilterReset'' = Inr (filter_reset c)
                \<and> create_param (JObj en) ''CalibPinMax'' = Inr (calib_pin_max c)
                \<and> create_param (JObj en) ''CalibPoutMax'' = Inr (calib_pout_max c)
                \<and> create_param (JObj en) ''CalibQout'' = Inr (calib_qout c)
                \<and> create_param (JObj en) ''ProgramModeZone1'' = Inr (program_mode_zone1 c)
                \<and> create_param (JObj en) ''ProgramModeZone2'' = Inr (program_mode_zone2 c)
                \<and> (status r1 \<noteq> 200 \<longrightarrow>
                     co2_setpoint c = None \<and> rh_setpoint c = None \<and> manual1 c = None \<and> manual2 c = None \<and> manual3 c = None \<and> manual_timeout c = None \<and> temp_dependent c = None \<and> rh_delta c = None \<and> sensor_visu_level c = None \<and> auto_min c = None \<and> auto_max c = None \<and> capacity c = None \<and> cfg_location c = JNull)
                \<and> (status r2 \<noteq> 200 \<longrightarrow>
                     bypass_mode c = None \<and> bypass_adaptive c = None \<and> comfort_temperature c = None \<and> filter_reset c = None \<and> calib_pin_max c = None \<and> calib_pout_max c = None \<and> calib_qout c = None \<and> program_mode_zone1 c = None \<and> program_mode_zone2 c = None)"
    using n1 n2
    by (intro exI [of _ "merged_config nd en"])
       (simp add: merged_config_def create_param_projr create_param_empty
          dict_get_def del: create_param.simps)
qed

text \<open>
  The amended rule at the device that cannot be reached, and at the device whose
  node-level call answers 500 while the box-level call succeeds.
\<close>

theorem primary_config_fault_absent_witness:
  "(call_faults (device offline_session \<lparr>url = ''http://'' @ host offline_session @ ''/nodeconfigget'',
            params = [(''node'', JInt 1)], timeout = 10\<rparr>)
      \<or> call_faults (device offline_session \<lparr>url = ''http://'' @ host offline_session @ ''/boxconfigget'',
            params = [], timeout = 10\<rparr>))
   \<and> fst (async_get_node_config 1 offline_session) = Inr None
   \<and> device node_500_session \<lparr>url = ''http://'' @ host node_500_session @ ''/nodeconfigget'',
            params = [(''node'', JInt 1)], timeout = 10\<rparr> = Inr node_500_reply
         \<and> device node_500_session \<lparr>url = ''http://'' @ host node_500_session @ ''/boxconfigget'',
            params = [], timeout = 10\<rparr> = Inr box_200_reply
         \<and> (if status node_500_reply = 200 then json_body node_500_reply = Inr (JObj []) else [] = [])
         \<and> (if status box_200_reply = 200
              then \<exists>box. json_body box_200_reply = Inr (JObj box)
                         \<and> dict_get box ''Energy'' (JObj []) = JObj bypass_section
              else bypass_section = [])
   \<and> (\<exists>c. fst (async_get_node_config 1 node_500_session) = Inr (Some c)
         \<and> cfg_node_id c = 1
         \<and> create_param (JObj []) ''CO2Setpoint'' = Inr (co2_setpoint c)
         \<and> create_param (JObj []) ''RHSetpoint'' = Inr (rh_setpoint c)
         \<and> create_param (JObj []) ''Manual1'' = Inr (manual1 c)
         \<and> create_param (JObj []) ''Manual2'' = Inr (manual2 c)
         \<and> create_param (JObj []) ''Manual3'' = Inr (manual3 c)
         \<and> create_param (JObj []) ''ManualTimeout'' = Inr (manual_timeout c)
         \<and> create_param (JObj []) ''TempDependent'' = Inr (temp_dependent c)
         \<and> create_param (JObj []) ''RHDelta'' = Inr (rh_delta c)
         \<and> create_param (JObj []) ''SensorVisuLevel'' = Inr (sensor_visu_level c)
         \<and> create_param (JObj []) ''AutoMin'' = Inr (auto_min c)
         \<and> create_param (JObj []) ''AutoMax'' = Inr (auto_max c)
         \<and> create_param (JObj []) ''Capacity'' = Inr (capacity c)
         \<and> cfg_location c = dict_get [] ''Location'' JNull
         \<and> create_param (JObj bypass_section) ''BypassMode'' = Inr (bypass_mode c)
         \<and> create_param (JObj bypass_section) ''BypassAdaptive'' = Inr (bypass_adaptive c)
         \<and> create_param (JObj bypass_section) ''ComfortTemperature'' = Inr (comfort_temperature c)
         \<and> create_param (JObj bypass_section) ''FilterReset'' = Inr (filter_reset c)
         \<and> create_param (JObj bypass_section) ''CalibPinMax'' = Inr (calib_pin_max c)
         \<and> create_param (JObj bypass_section) ''CalibPoutMax'' = Inr (calib_pout_max c)
         \<and> create_param (JObj bypass_section) ''CalibQout'' = Inr (calib_qout c)
         \<and> create_param (JObj bypass_section) ''ProgramModeZone1'' = Inr (program_mode_zone1 c)
         \<and> create_param (JObj bypass_section) ''ProgramModeZone2'' = Inr (program_mode_zone2 c)
         \<and> (status node_500_reply \<noteq> 200 \<longrightarrow>
              co2_setpoint c = None \<and> rh_setpoint c = None \<and> manual1 c = None \<and> manual2 c = None \<and> manual3 c = None \<and> manual_timeout c = None \<and> temp_dependent c = None \<and> rh_delta c = None \<and> sensor_visu_level c = None \<and> auto_min c = None \<and> auto_max c = None \<and> capacity c = None \<and> cfg_location c = JNull)
         \<and> (status box_200_reply \<noteq> 200 \<longrightarrow>
              bypass_mode c = None \<and> bypass_adaptive c = None \<and> comfort_temperature c = None \<and> filter_reset c = None \<and> calib_pin_max c = None \<and> calib_pout_max c = None \<and> calib_qout c = None \<and> program_mode_zone1 c = None \<and> program_mode_zone2 c = None))"
proof -
  have a: "(call_faults (device offline_session \<lparr>url = ''http://'' @ host offline_session @ ''/nodeconfigget'',
            params = [(''node'', JInt 1)], timeout = 10\<rparr>)
      \<or> call_faults (device offline_session \<lparr>url = ''http://'' @ host offline_session @ ''/boxconfigget'',
            params = [], timeout = 10\<rparr>))"
    by (simp add: call_faults_def offline_session_def)
  have b: "device node_500_session \<lparr>url = ''http://'' @ host node_500_session @ ''/nodeconfigget'',
            params = [(''node'', JInt 1)], timeout = 10\<rparr> = Inr node_500_reply
         \<and> device node_500_session \<lparr>url = ''http://'' @ host node_500_session @ ''/boxconfigget'',
            params = [], timeout = 10\<rparr> = Inr box_200_reply
         \<and> (if status node_500_reply = 200 then json_body node_500_reply = Inr (JObj []) else [] = [])
         \<and> (if status box_200_reply = 200
              then \<exists>box. json_body box_200_reply = Inr (JObj box)
                         \<and> dict_get box ''Energy'' (JObj []) = JObj bypass_section
              else bypass_section = [])"
    by (simp add: node_500_session_def node_500_reply_def box_200_reply_def dict_get_def)
  from primary_config_fault_absent [of offline_session, THEN conjunct1, rule_format, OF a]
    primary_config_fault_absent [of node_500_session, THEN conjunct2, rule_format, OF b]
    a b
  show ?thesis by blast
qed

text \<open>
  C1, as stated, fails: when the node-level call answers 500 and the box-level call
  succeeds, the operation returns a configuration with the box-level slot filled and
  every node-level slot empty, not \<^verbatim>\<open>None\<close>.
\<close>

theorem primary_config_partial_counterexample:
  "fst (async_get_node_config 1 node_500_session) = Inr (Some box_only_config)"
  by (simp add: async_get_node_config_fst node_config_body_primary node_500_session_def
        node_500_reply_def box_200_reply_def bypass_section_def
        merge_config_def py_get_def dict_get_def box_only_config_def)

subsection \<open>Writing a configuration parameter\<close>

lemma trunc_rat_floor_ceiling: "trunc_rat q = (if 0 \<le> q then \<lfloor>q\<rfloor> else \<lceil>q\<rceil>)"
  by (simp add: trunc_rat_def ceiling_def)

lemma trunc_rat_bounds:
  "\<bar>of_int (trunc_rat q)\<bar> \<le> \<bar>q\<bar>" "\<bar>q - of_int (trunc_rat q)\<bar> < 1"
proof -
  have "\<bar>of_int (trunc_rat q)\<bar> \<le> \<bar>q\<bar> \<and> \<bar>q - of_int (trunc_rat q)\<bar> < 1"
  proof (cases "0 \<le> q")
    case True
    define c where "c = (of_int \<lfloor>q\<rfloor> :: rat)"
    from True have "0 \<le> c" by (simp add: c_def)
    moreover from floor_correct [of q] have "c \<le> q" and "q < c + 1"
      by (simp_all add: c_def)
    moreover from True have "of_int (trunc_rat q) = c"
      by (simp add: trunc_rat_floor_ceiling c_def)
    ultimately show ?thesis by (auto simp: abs_if)
  next
    case False
    define c where "c = (of_int \<lceil>q\<rceil> :: rat)"
    from False have "c \<le> 0" by (simp add: c_def)
    moreover from ceiling_correct [of q] have "c - 1 < q" and "q \<le> c"
      by (simp_all add: c_def)
    moreover from False have "of_int (trunc_rat q) = c"
      by (simp add: trunc_rat_floor_ceiling c_def)
    ultimately show ?thesis by (auto simp: abs_if)
  qed
  then show "\<bar>of_int (trunc_rat q)\<bar> \<le> \<bar>q\<bar>" "\<bar>q - of_int (trunc_rat q)\<bar> < 1"
    by simp_all
qed

lemma set_node_config_not_sent:
  assumes "py_int v = Inl e"
  shows "async_set_node_config nid parameter v s = (Inr False, s)"
  using assms by (simp add: async_set_node_config_def set_node_config_body_def)

text \<open>
  C6, as stated, fails: for node 1 and the box-level parameter \<^verbatim>\<open>BypassMode\<close>, the value
  NaN makes \<^verbatim>\<open>int(value)\<close> raise while the parameters are built; no request is issued,
  to either endpoint, and the operation returns \<^verbatim>\<open>False\<close>.
\<close>

theorem config_write_nan_counterexample:
  "async_set_node_config 1 ''BypassMode'' NaN accepting_session = (Inr False, accepting_session)
   \<and> issued (snd (async_set_node_config 1 ''BypassMode'' NaN accepting_session)) = []"
  by (simp add: set_node_config_not_sent accepting_session_def)

text \<open>
  C6, as amended: for a finite value, \<^verbatim>\<open>async_set_node_config\<close> issues exactly one
  request. For node 1 and a parameter of the box-level set it goes to \<^verbatim>\<open>/boxconfigset\<close>
  with \<^verbatim>\<open>mod=Energy\<close>; in every other case it goes to \<^verbatim>\<open>/nodeconfigset\<close> with the node id.
  The value sent is an integer: the value given, truncated towards zero. For a value
  that is NaN or an infinity no request is issued and the result is \<^verbatim>\<open>False\<close>.
\<close>

theorem config_write_routing:
  "issued (snd (async_set_node_config nid parameter (Finite q) s)) =
     issued s @
     [if nid = 1 \<and> parameter \<in> {''BypassMode'', ''BypassAdaptive'', ''ComfortTemperature'',
                                  ''FilterReset'', ''CalibPinMax'', ''CalibPoutMax'',
                                  ''CalibQout'', ''ProgramModeZone1'', ''ProgramModeZone2''}
      then \<lparr>url = ''http://'' @ host s @ ''/boxconfigset'',
            params = [(''mod'', JStr ''Energy''), (''para'', JStr parameter),
                      (''value'', JInt (trunc_rat q))], timeout = 10\<rparr>
      else \<lparr>url = ''http://'' @ host s @ ''/nodeconfigset'',
            params = [(''node'', JInt nid), (''para'', JStr parameter),
                      (''value'', JInt (trunc_rat q))], timeout = 10\<rparr>]
   \<and> trunc_rat q = (if 0 \<le> q then \<lfloor>q\<rfloor> else \<lceil>q\<rceil>)
   \<and> \<bar>of_int (trunc_rat q)\<bar> \<le> \<bar>q\<bar> \<and> \<bar>q - of_int (trunc_rat q)\<bar> < 1
   \<and> async_set_node_config nid parameter NaN s = (Inr False, s)
   \<and> async_set_node_config nid parameter PosInf s = (Inr False, s)
   \<and> async_set_node_config nid parameter NegInf s = (Inr False, s)"
proof (intro conjI)
  show "issued (snd (async_set_node_config nid parameter (Finite q) s)) =
     issued s @
     [if nid = 1 \<and> parameter \<in> {''BypassMode'', ''BypassAdaptive'', ''ComfortTemperature'',
                                  ''FilterReset'', ''CalibPinMax'', ''CalibPoutMax'',
                                  ''CalibQout'', ''ProgramModeZone1'', ''ProgramModeZone2''}
      then \<lparr>url = ''http://'' @ host s @ ''/boxconfigset'',
            params = [(''mod'', JStr ''Energy''), (''para'', JStr parameter),
                      (''value'', JInt (trunc_rat q))], timeout = 10\<rparr>
      else \<lparr>url = ''http://'' @ host s @ ''/nodeconfigset'',
            params = [(''node'', JInt nid), (''para'', JStr parameter),
                      (''value'', JInt (trunc_rat q))], timeout = 10\<rparr>]"
    unfolding async_set_node_config_def set_node_config_body_def box_level_params_def
      session_get_eq base_url_def REQUEST_TIMEOUT_def
    by (simp split: sum.splits)
next
  show "trunc_rat q = (if 0 \<le> q then \<lfloor>q\<rfloor> else \<lceil>q\<rceil>)"
    by (rule trunc_rat_floor_ceiling)
next
  show "\<bar>of_int (trunc_rat q)\<bar> \<le> \<bar>q\<bar>"
    by (rule trunc_rat_bounds)
next
  show "\<bar>q - of_int (trunc_rat q)\<bar> < 1"
    by (rule trunc_rat_bounds)
next
  show "async_set_node_config nid parameter NaN s = (Inr False, s)"
    by (rule set_node_config_not_sent) simp
next
  show "async_set_node_config nid parameter PosInf s = (Inr False, s)"
    by (rule set_node_config_not_sent) simp
next
  show "async_set_node_config nid parameter NegInf s = (Inr False, s)"
    by (rule set_node_config_not_sent) simp
qed

text \<open>
  The routing at the value 2.5: for node 1 the box-level parameter \<^verbatim>\<open>BypassMode\<close> is
  written through \<^verbatim>\<open>/boxconfigset\<close>, for node 5 through \<^verbatim>\<open>/nodeconfigset\<close>, with the value 2.
\<close>

lemma config_write_examples:
  "issued (snd (async_set_node_config 1 ''BypassMode'' (Finite (5 / 2)) accepting_session)) =
     [\<lparr>url = ''http://duco.local/boxconfigset'',
       params = [(''mod'', JStr ''Energy''), (''para'', JStr ''BypassMode''),
                 (''value'', JInt 2)], timeout = 10\<rparr>]"
  "issued (snd (async_set_node_config 5 ''BypassMode'' (Finite (5 / 2)) accepting_session)) =
     [\<lparr>url = ''http://duco.local/nodeconfigset'',
       params = [(''node'', JInt 5), (''para'', JStr ''BypassMode''),
                 (''value'', JInt 2)], timeout = 10\<rparr>]"
  by (simp_all add: async_set_node_config_def set_node_config_body_def box_level_params_def
        session_get_eq base_url_def REQUEST_TIMEOUT_def accepting_session_def trunc_rat_def
        floor_divide_rat_numeral)

end
